theory Spec2Isabelle
  imports Main "HOL-Library.Word"
begin

section \<open>Go values, reflected types and errors\<close>

text \<open>
  The package works on arbitrary Go values through \<open>reflect\<close>.  A Go string is a byte
  sequence (\<open>string\<close>).  A float64 is its 64-bit IEEE pattern; the package never computes
  with floats, it only stores what \<open>strconv.ParseFloat\<close> returns.
\<close>

type_synonym float64 = "64 word"

text \<open>\<open>reflect.Kind\<close>, in the order of the Go declaration.\<close>

datatype Kind =
    K_Invalid | K_Bool | K_Int | K_Int8 | K_Int16 | K_Int32 | K_Int64
  | K_Uint | K_Uint8 | K_Uint16 | K_Uint32 | K_Uint64 | K_Uintptr
  | K_Float32 | K_Float64 | K_Complex64 | K_Complex128
  | K_Array | K_Chan | K_Func | K_Interface | K_Map | K_Pointer | K_Slice | K_String | K_Struct | K_UnsafePointer

text \<open>\<open>Kind.String()\<close>, which is what \<open>%v\<close> and \<open>%s\<close> print for a kind.\<close>

fun Kind_String :: "Kind \<Rightarrow> string" where
  "Kind_String K_Invalid = ''invalid''"
| "Kind_String K_Bool = ''bool''"
| "Kind_String K_Int = ''int''"
| "Kind_String K_Int8 = ''int8''"
| "Kind_String K_Int16 = ''int16''"
| "Kind_String K_Int32 = ''int32''"
| "Kind_String K_Int64 = ''int64''"
| "Kind_String K_Uint = ''uint''"
| "Kind_String K_Uint8 = ''uint8''"
| "Kind_String K_Uint16 = ''uint16''"
| "Kind_String K_Uint32 = ''uint32''"
| "Kind_String K_Uint64 = ''uint64''"
| "Kind_String K_Uintptr = ''uintptr''"
| "Kind_String K_Float32 = ''float32''"
| "Kind_String K_Float64 = ''float64''"
| "Kind_String K_Complex64 = ''complex64''"
| "Kind_String K_Complex128 = ''complex128''"
| "Kind_String K_Array = ''array''"
| "Kind_String K_Chan = ''chan''"
| "Kind_String K_Func = ''func''"
| "Kind_String K_Interface = ''interface''"
| "Kind_String K_Map = ''map''"
| "Kind_String K_Pointer = ''ptr''"
| "Kind_String K_Slice = ''slice''"
| "Kind_String K_String = ''string''"
| "Kind_String K_Struct = ''struct''"
| "Kind_String K_UnsafePointer = ''unsafe.Pointer''"

text \<open>
  A Go value as the package can observe it.  Integers carry their mathematical value (the
  width is in the type), \<open>VFloat b x\<close> is what \<open>SetFloat(x)\<close> leaves in a \<open>b\<close>-bit float
  variable, a struct is the list of its field values in declaration order, \<open>VNilSlice\<close> is
  the zero slice and \<open>VSlice\<close> one made by \<open>reflect.MakeSlice\<close>.  \<open>VOther\<close> stands for
  every value the package only passes around (maps, forms, request handles).
\<close>

datatype go_value =
    VBool bool
  | VInt int
  | VUint nat
  | VFloat nat float64
  | VString string
  | VPointer "go_value option"
  | VNilSlice
  | VSlice "go_value list"
  | VStruct "go_value list"
  | VOther string

subsection \<open>The response sink\<close>

text \<open>
  The bodies handed to \<open>WriteHeaderAndEntity\<close>: nil, the error output structures of the
  package, or a handler's value.
\<close>

datatype entity =
    NilEntity
  | APIResponseErrorOutput (out_Type: string) (out_Message: string)
  | APIHeaderParameterErrorOutput (out_Type: string) (out_Message: string) (out_Parameter: string)
  | APIPathParameterErrorOutput (out_Type: string) (out_Message: string) (out_Parameter: string)
  | APIQueryParameterErrorOutput (out_Type: string) (out_Message: string) (out_Parameter: string)
  | ValueEntity go_value

text \<open>
  A \<open>restful.Response\<close> is the sequence of operations performed on it, oldest first.
\<close>

datatype resp_op =
    WriteHeaderAndEntity int entity
  | SetHeader string string
  | WriteHeader int
  | WriteBytes string

type_synonym Response = "resp_op list"

subsection \<open>Errors\<close>

datatype num_err = ErrSyntax | ErrRange | ErrBitSize nat

text \<open>
  The error values that occur: \<open>errors.New\<close> and \<open>fmt.Errorf\<close> without \<open>%w\<close>
  (\<open>errorString\<close>, its message), \<open>fmt.Errorf\<close> with one \<open>%w\<close> (\<open>wrapError\<close>, the
  formatted message and the wrapped error), \<open>*strconv.NumError\<close> (Func, Num, Err), the
  error types of the package with their fields, and \<open>customError\<close> for every other error
  type: its \<open>%T\<close> name, its message, what its \<open>WriteError\<close> does when it implements
  \<open>ErrorWriter\<close>, and what it unwraps to.  In \<open>APIResponseError\<close> the field
  \<open>httpError\<close> is \<open>Some code\<close> for an \<open>*httperror.Error\<close> of that status and
  \<open>None\<close> for anything else.
\<close>

datatype go_error =
    errorString string
  | wrapError string go_error
  | NumError string string num_err
  | APIResponseError (message: string) (httpError: "int option")
  | APIBodyError go_error go_error
  | APIHeaderParameterError string go_error go_error
  | APIPathParameterError string go_error go_error
  | APIQueryParameterError string go_error go_error
  | customError string string "resp_op list option" "go_error list"

text \<open>A function of the package either returns an error or panics.\<close>

datatype failure = Failed go_error | Panicked string

subsection \<open>Runes and the library \<open>strconv\<close>\<close>

text \<open>
  A Go string is a sequence of bytes; \<open>utf8.DecodeRuneInString\<close> reads the first rune of
  one, as the rune and its width in bytes: \<open>RuneError\<close> with width 1 for a byte sequence
  that is not the shortest UTF-8 encoding of a rune, with width 0 for the empty string.
\<close>

definition RuneError :: nat where
  "RuneError = 0xFFFD"

definition bytes :: "string \<Rightarrow> nat list" where
  "bytes s = map of_char s"

definition continuation :: "nat \<Rightarrow> bool" where
  "continuation b = (0x80 \<le> b \<and> b \<le> 0xBF)"

fun DecodeRune :: "nat list \<Rightarrow> nat \<times> nat" where
  "DecodeRune [] = (RuneError, 0)"
| "DecodeRune (s0 # rest) =
     (if s0 < 0x80 then (s0, 1)
      else if s0 < 0xC2 \<or> 0xF4 < s0 then (RuneError, 1)
      else
        (let sz = (if s0 < 0xE0 then 2 else if s0 < 0xF0 then 3 else 4) :: nat;
             lo = (if s0 = 0xE0 then 0xA0 else if s0 = 0xF0 then 0x90 else 0x80) :: nat;
             hi = (if s0 = 0xED then 0x9F else if s0 = 0xF4 then 0x8F else 0xBF) :: nat
         in if length rest < sz - 1 then (RuneError, 1)
            else
              (let s1 = rest ! 0 in
               if s1 < lo \<or> hi < s1 then (RuneError, 1)
               else if sz = 2 then ((s0 mod 0x20) * 0x40 + s1 mod 0x40, 2)
               else
                 (let s2 = rest ! 1 in
                  if \<not> continuation s2 then (RuneError, 1)
                  else if sz = 3 then ((s0 mod 0x10) * 0x1000 + (s1 mod 0x40) * 0x40 + s2 mod 0x40, 3)
                  else
                    (let s3 = rest ! 2 in
                     if \<not> continuation s3 then (RuneError, 1)
                     else ((s0 mod 8) * 0x40000 + (s1 mod 0x40) * 0x1000 + (s2 mod 0x40) * 0x40
                             + s3 mod 0x40, 4))))))"

text \<open>
  \<open>utf8.DecodeLastRuneInString\<close>: the last rune and its width.  It looks back over at
  most three bytes for the start of the rune and decodes from there.
\<close>

definition RuneStart :: "nat \<Rightarrow> bool" where
  "RuneStart b = (\<not> continuation b)"

definition DecodeLastRune :: "nat list \<Rightarrow> nat \<times> nat" where
  "DecodeLastRune s =
     (let end = length s in
      if end = 0 then (RuneError, 0)
      else if s ! (end - 1) < 0x80 then (s ! (end - 1), 1)
      else
        (let lim = end - 4;
             starts = filter (\<lambda>i. RuneStart (s ! i)) (rev [lim ..< end - 1]);
             start = (case starts of i # rest \<Rightarrow> i | [] \<Rightarrow> lim - 1)
         in (case DecodeRune (drop start s) of
               (r, w) \<Rightarrow> if start + w \<noteq> end then (RuneError, 1) else (r, w))))"

text \<open>
  Two parts of the library \<open>strconv\<close> are parameters of the model: \<open>ParseFloat\<close>, from the
  text and the bit size to the float it returns or its error, and the tables of
  \<open>isprint.go\<close>, which say which runes above U+00FF \<open>IsPrint\<close> holds of.
\<close>

type_synonym ParseFloat = "string \<Rightarrow> nat \<Rightarrow> go_error + float64"

record strconv =
  ParseFloat :: ParseFloat
  isPrint_tables :: "nat \<Rightarrow> bool"

text \<open>\<open>strconv.IsPrint\<close>, with its fast path for Latin-1.\<close>

definition IsPrint :: "strconv \<Rightarrow> nat \<Rightarrow> bool" where
  "IsPrint sc r =
     (if r \<le> 0xFF then
        (if 0x20 \<le> r \<and> r \<le> 0x7E then True
         else if 0xA1 \<le> r then r \<noteq> 0xAD
         else False)
      else isPrint_tables sc r)"

subsection \<open>Formatting\<close>

definition lowerhex :: "nat \<Rightarrow> char" where
  "lowerhex n = (''0123456789abcdef'') ! (n mod 16)"

definition ValidRune :: "nat \<Rightarrow> bool" where
  "ValidRune r = (r < 0xD800 \<or> (0xDFFF < r \<and> r \<le> 0x10FFFF))"

text \<open>
  \<open>strconv.Quote\<close>, which is also \<open>%q\<close>.  \<open>appendEscapedRune\<close> writes one rune: a
  printable one as it is, which is as the bytes \<open>encoded\<close> it was decoded from, any other
  as an escape sequence.  The loop of \<open>appendQuotedWith\<close> writes a byte that starts no
  rune as \<open>\xNN\<close>.
\<close>

definition appendEscapedRune :: "strconv \<Rightarrow> nat \<Rightarrow> string \<Rightarrow> string" where
  "appendEscapedRune sc r encoded =
     (if r = 0x22 then [CHR 0x5C, CHR 0x22]
      else if r = 0x5C then [CHR 0x5C, CHR 0x5C]
      else if IsPrint sc r then encoded
      else if r = 7 then [CHR 0x5C, CHR ''a'']
      else if r = 8 then [CHR 0x5C, CHR ''b'']
      else if r = 12 then [CHR 0x5C, CHR ''f'']
      else if r = 10 then [CHR 0x5C, CHR ''n'']
      else if r = 13 then [CHR 0x5C, CHR ''r'']
      else if r = 9 then [CHR 0x5C, CHR ''t'']
      else if r = 11 then [CHR 0x5C, CHR ''v'']
      else if r < 0x20 \<or> r = 0x7F then [CHR 0x5C, CHR ''x'', lowerhex (r div 16), lowerhex r]
      else
        (let r' = (if ValidRune r then r else 0xFFFD) in
         if r' < 0x10000
         then [CHR 0x5C, CHR ''u''] @ map (\<lambda>k. lowerhex (r' div 16 ^ k)) [3, 2, 1, 0]
         else [CHR 0x5C, CHR ''U''] @ map (\<lambda>k. lowerhex (r' div 16 ^ k)) [7, 6, 5, 4, 3, 2, 1, 0]))"

function appendQuoted :: "strconv \<Rightarrow> string \<Rightarrow> string" where
  "appendQuoted sc s =
     (if s = [] then []
      else (case DecodeRune (bytes s) of
              (r, width) \<Rightarrow>
                (if width = 1 \<and> r = RuneError
                 then [CHR 0x5C, CHR ''x'', lowerhex (of_char (hd s) div 16), lowerhex (of_char (hd s))]
                 else appendEscapedRune sc r (take width s))
                @ appendQuoted sc (drop width s)))"
  by pat_completeness auto
termination
  by (relation "measure (\<lambda>(sc, s). length s)")
     (auto simp: bytes_def Let_def neq_Nil_conv split: if_splits)

declare appendQuoted.simps [simp del]

definition Quote :: "strconv \<Rightarrow> string \<Rightarrow> string" where
  "Quote sc s = [CHR 0x22] @ appendQuoted sc s @ [CHR 0x22]"

fun num_err_Error :: "num_err \<Rightarrow> string" where
  "num_err_Error ErrSyntax = ''invalid syntax''"
| "num_err_Error ErrRange = ''value out of range''"
| "num_err_Error (ErrBitSize n) = ''invalid bit size''"

text \<open>The \<open>Error()\<close> method of each error type.\<close>

fun Error :: "strconv \<Rightarrow> go_error \<Rightarrow> string" where
  "Error sc (errorString m) = m"
| "Error sc (wrapError m e) = m"
| "Error sc (NumError f n e) = ''strconv.'' @ f @ '': parsing '' @ Quote sc n @ '': '' @ num_err_Error e"
| "Error sc (APIResponseError m h) = m"
| "Error sc (APIBodyError bodyError r) = Error sc bodyError"
| "Error sc (APIHeaderParameterError p parameterError r) = Error sc parameterError"
| "Error sc (APIPathParameterError p parameterError r) = Error sc parameterError"
| "Error sc (APIQueryParameterError p parameterError r) = Error sc parameterError"
| "Error sc (customError t m w u) = m"

text \<open>What \<open>%T\<close> prints for an error.\<close>

fun TypeName :: "go_error \<Rightarrow> string" where
  "TypeName (errorString m) = ''*errors.errorString''"
| "TypeName (wrapError m e) = ''*fmt.wrapError''"
| "TypeName (NumError f n e) = ''*strconv.NumError''"
| "TypeName (APIResponseError m h) = ''*restfulwrapper.APIResponseError''"
| "TypeName (APIBodyError b r) = ''*restfulwrapper.APIBodyError''"
| "TypeName (APIHeaderParameterError p e r) = ''*restfulwrapper.APIHeaderParameterError''"
| "TypeName (APIPathParameterError p e r) = ''*restfulwrapper.APIPathParameterError''"
| "TypeName (APIQueryParameterError p e r) = ''*restfulwrapper.APIQueryParameterError''"
| "TypeName (customError t m w u) = t"

subsection \<open>Reflected types\<close>

text \<open>
  A \<open>reflect.Type\<close> is what the package asks of it: \<open>Kind()\<close>, \<open>String()\<close>,
  whether it implements \<open>context.Context\<close> and \<open>error\<close>, \<open>Elem()\<close>
  (\<open>None\<close> where Go panics), the fields of a struct, and the \<open>ParseString\<close> method
  when a pointer to the type implements \<open>ParameterParser\<close>: from the text and the
  current value to an error or the value it leaves.  A \<open>reflect.StructField\<close> has its
  name, package path (empty for an exported field), the embedding flag, type and tag; the
  tag is the list of its key-value pairs in order.
\<close>

datatype go_type =
    GoType (type_Kind: Kind) (type_String: string)
           (Implements_Context: bool) (Implements_error: bool)
           (type_Elem: "go_type option") (type_Fields: "StructField list")
           (type_ParseString: "(string \<Rightarrow> go_value \<Rightarrow> go_error + go_value) option")
and StructField =
    StructField (field_Name: string) (field_PkgPath: string) (field_Anonymous: bool)
                (field_Type: go_type) (field_Tag: "(string \<times> string) list")

text \<open>
  \<open>Type.Bits()\<close> is the size of a numeric kind (0 stands for the panic on any other
  kind); \<open>int\<close>, \<open>uint\<close> and \<open>uintptr\<close> are 64 bits wide, as on a 64-bit platform.
\<close>

fun Kind_Bits :: "Kind \<Rightarrow> nat" where
  "Kind_Bits K_Int = 64"
| "Kind_Bits K_Int8 = 8"
| "Kind_Bits K_Int16 = 16"
| "Kind_Bits K_Int32 = 32"
| "Kind_Bits K_Int64 = 64"
| "Kind_Bits K_Uint = 64"
| "Kind_Bits K_Uint8 = 8"
| "Kind_Bits K_Uint16 = 16"
| "Kind_Bits K_Uint32 = 32"
| "Kind_Bits K_Uint64 = 64"
| "Kind_Bits K_Uintptr = 64"
| "Kind_Bits K_Float32 = 32"
| "Kind_Bits K_Float64 = 64"
| "Kind_Bits K_Complex64 = 64"
| "Kind_Bits K_Complex128 = 128"
| "Kind_Bits k = 0"

definition type_Bits :: "go_type \<Rightarrow> nat" where
  "type_Bits ty = Kind_Bits (type_Kind ty)"

text \<open>\<open>StructTag.Lookup\<close> and \<open>StructTag.Get\<close>.\<close>

definition Tag_Lookup :: "(string \<times> string) list \<Rightarrow> string \<Rightarrow> string option" where
  "Tag_Lookup tag key = map_of tag key"

definition Tag_Get :: "(string \<times> string) list \<Rightarrow> string \<Rightarrow> string" where
  "Tag_Get tag key = (case Tag_Lookup tag key of Some v \<Rightarrow> v | None \<Rightarrow> [])"


section \<open>Requests, routes and the directive registry\<close>

text \<open>
  What a binder can read from a \<open>restful.Request\<close>: the method, the URL path, the path,
  query and header parameters, and the outcome of each way of reading the body
  (\<open>ParseForm\<close> with \<open>PostForm\<close>, \<open>MultipartReader\<close> with \<open>ReadForm\<close>,
  \<open>io.ReadAll\<close>, \<open>ReadEntity\<close> into a value of a given type).
\<close>

record Request =
  req_Method :: string
  req_URLPath :: string
  req_PathParameter :: "string \<Rightarrow> string"
  req_QueryParameters :: "string \<Rightarrow> string list"
  req_HeaderParameter :: "string \<Rightarrow> string"
  req_ParseForm :: "go_error + go_value"
  req_ReadForm :: "go_error + go_value"
  req_ReadAll :: "go_error + string"
  req_ReadEntity :: "go_type \<Rightarrow> go_error + go_value"

datatype RestfulFunctionPathParameter =
  RestfulFunctionPathParameter (pp_FieldName: string) (pp_Name: string) (pp_Description: string)

datatype RestfulFunctionQueryParameter =
  RestfulFunctionQueryParameter (qp_FieldName: string) (qp_Name: string) (qp_Description: string)
                                (qp_AllowMultiple: bool)

datatype RestfulFunctionHeaderParameter =
  RestfulFunctionHeaderParameter (hp_FieldName: string) (hp_Name: string) (hp_Description: string)
                                 (hp_AllowMultiple: bool)

text \<open>
  What a handler is called with and what it returns, as \<open>CreateFunctionWithError\<close> looks
  at it: an argument slot is unset, the context or the metadata record; a result is the nil
  interface, an error, a value implementing \<open>Writer\<close> (with what its \<open>Write\<close> does to
  the response) or any other value.
\<close>

datatype go_arg = ZeroArg | ContextArg | MetadataArg go_value

datatype go_result = NilResult | ErrorResult go_error | WriterResult "resp_op list" | PlainResult go_value

text \<open>A function value: its parameter types, its result types, and what calling it returns.\<close>

datatype go_func =
  GoFunc (func_In: "go_type list") (func_Out: "go_type list") (func_Call: "go_arg list \<Rightarrow> go_result list")

text \<open>What \<open>ParseRestfulFunction\<close> is given: the nil interface, a value that is no function, or a function.\<close>

datatype go_iface = NilIface | NonFunc Kind | FuncValue go_func

text \<open>
  \<open>RestfulFunctionInfo\<close>.  The binders close over the pointer to the record and read it
  when they run, so the record is split: \<open>RestfulFunctionMeta\<close> holds every field but
  \<open>InputFields\<close>, and a binder takes the fields as they are when it runs as its first
  argument.  \<open>Do\<close>, a list of route-builder callbacks no directive touches, is left out;
  an example value is the zero value it holds.
\<close>

record RestfulFunctionMeta =
  FunctionValue :: go_func
  InContextPosition :: int
  InMetadataPosition :: int
  InMetadataType :: "go_type option"
  OutErrorPosition :: int
  OutResponsePosition :: int
  HTTPMethod :: string
  HTTPPath :: string
  Doc :: string
  Notes :: string
  PathParameters :: "RestfulFunctionPathParameter list"
  QueryParameters :: "RestfulFunctionQueryParameter list"
  HeaderParameters :: "RestfulFunctionHeaderParameter list"
  BodyExample :: "go_value option"
  ResponseExample :: "go_value option"
  Consumes :: "string list"
  Produces :: "string list"
  LocalMap :: "string \<rightharpoonup> string"

text \<open>
  The \<open>reflect.Value\<close> of a field of the metadata record: the zero Value, or the field at an
  index path, with its type and whether it was reached through an unexported field
  (\<open>ReadOnly\<close>: \<open>CanSet\<close> is false, \<open>Set\<close> and \<open>Interface\<close> panic).
\<close>

datatype rflag = Settable | ReadOnly

datatype rvalue = ZeroValue | FieldValue (rv_Index: "nat list") (rv_Type: go_type) (rv_flag: rflag)

text \<open>
  \<open>InputFieldFunction\<close>: the record fields as they are now, the field, the request and the
  metadata record being built; it fails or leaves a metadata record.
\<close>

type_synonym InputFieldFunction =
  "RestfulFunctionMeta \<Rightarrow> rvalue \<Rightarrow> Request \<Rightarrow> go_value \<Rightarrow> failure + go_value"

datatype InputField = InputField (if_Name: string) (if_Function: InputFieldFunction)

record RestfulFunctionInfo = RestfulFunctionMeta +
  InputFields :: "InputField list"

text \<open>
  \<open>RegisterFunction\<close>: the tag value, the field and the record; it fails, or returns a binder
  (or nil) and the record as it left it.
\<close>

type_synonym RegisterFunction =
  "string \<Rightarrow> StructField \<Rightarrow> RestfulFunctionInfo
     \<Rightarrow> failure + (InputFieldFunction option \<times> RestfulFunctionInfo)"

text \<open>
  \<open>registeredFunctionMap\<close>: a Go map from tag keys to function values, any of which may be
  the nil function.
\<close>

type_synonym registry = "string \<rightharpoonup> RegisterFunction option"

text \<open>
  \<open>Register\<close>: the outcome (\<open>None\<close> when it returns, the panic otherwise) and the map
  afterwards.
\<close>

definition Register :: "string \<Rightarrow> RegisterFunction option \<Rightarrow> registry \<Rightarrow> failure option \<times> registry" where
  "Register apiTagKey f registeredFunctionMap =
     (if apiTagKey \<in> dom registeredFunctionMap
      then (Some (Panicked (''tag already registered: '' @ apiTagKey)), registeredFunctionMap)
      else (None, registeredFunctionMap(apiTagKey \<mapsto> f)))"

section \<open>Parsing one string into one value\<close>

subsection \<open>strconv\<close>

text \<open>
  \<open>strconv.ParseBool\<close>, \<open>ParseUint\<close> and \<open>ParseInt\<close> with base 10, after the Go
  standard library; each returns a value and an error.  \<open>uint64\<close> arithmetic is on
  \<open>nat\<close> with the wrap-around written out.  \<open>IntSize\<close> is that of a 64-bit platform.
\<close>

definition IntSize :: nat where
  "IntSize = 64"

definition maxUint64 :: nat where
  "maxUint64 = 2 ^ 64 - 1"

definition ParseBool :: "string \<Rightarrow> bool \<times> go_error option" where
  "ParseBool str =
     (if str \<in> {''1'', ''t'', ''T'', ''TRUE'', ''true'', ''True''} then (True, None)
      else if str \<in> {''0'', ''f'', ''F'', ''FALSE'', ''false'', ''False''} then (False, None)
      else (False, Some (NumError ''ParseBool'' str ErrSyntax)))"

definition is_digit :: "char \<Rightarrow> bool" where
  "is_digit c = (48 \<le> (of_char c :: nat) \<and> (of_char c :: nat) \<le> 57)"

definition digit_val :: "char \<Rightarrow> nat" where
  "digit_val c = of_char c - 48"

text \<open>
  The loop of \<open>ParseUint\<close> over the bytes still to read, with the value so far.  With
  base 10 every byte that is not a decimal digit is a syntax error (a letter is a digit of
  a higher base, an underscore needs base 0).
\<close>

fun ParseUint_loop :: "nat \<Rightarrow> string \<Rightarrow> nat \<Rightarrow> nat \<times> num_err option" where
  "ParseUint_loop maxVal [] n = (n, None)"
| "ParseUint_loop maxVal (c # cs) n =
     (if \<not> is_digit c then (0, Some ErrSyntax)
      else if n \<ge> maxUint64 div 10 + 1 then (maxVal, Some ErrRange)
      else
        let n' = (n * 10) mod 2 ^ 64;
            n1 = (n' + digit_val c) mod 2 ^ 64
        in if n1 < n' \<or> n1 > maxVal then (maxVal, Some ErrRange)
           else ParseUint_loop maxVal cs n1)"

text \<open>
  \<open>ParseUint\<close> in two steps: the value with the kind of error (the \<open>Err\<close> field of the
  \<open>*NumError\<close> it returns), then the error value itself.
\<close>

definition ParseUint_Err :: "string \<Rightarrow> nat \<Rightarrow> nat \<times> num_err option" where
  "ParseUint_Err s bitSize =
     (if s = [] then (0, Some ErrSyntax)
      else
        let bits = (if bitSize = 0 then IntSize else bitSize)
        in if bits > 64 then (0, Some (ErrBitSize bitSize))
           else ParseUint_loop ((2 ^ bits mod 2 ^ 64 + (2 ^ 64 - 1)) mod 2 ^ 64) s 0)"

definition ParseUint :: "string \<Rightarrow> nat \<Rightarrow> nat \<times> go_error option" where
  "ParseUint s bitSize =
     (case ParseUint_Err s bitSize of
        (v, None) \<Rightarrow> (v, None)
      | (v, Some k) \<Rightarrow> (v, Some (NumError ''ParseUint'' s k)))"

text \<open>The conversion \<open>int64(un)\<close> and the negation of an \<open>int64\<close>.\<close>

definition int64 :: "nat \<Rightarrow> int" where
  "int64 un = (if un mod 2 ^ 64 < 2 ^ 63 then int (un mod 2 ^ 64) else int (un mod 2 ^ 64) - 2 ^ 64)"

definition neg64 :: "int \<Rightarrow> int" where
  "neg64 n = (if n = - (2 ^ 63) then n else - n)"

text \<open>
  \<open>ParseInt\<close>: an error of \<open>ParseUint\<close> other than a range error is returned under the
  name \<open>ParseInt\<close> with the whole text; otherwise the range of the signed type decides.
\<close>

definition ParseInt :: "string \<Rightarrow> nat \<Rightarrow> int \<times> go_error option" where
  "ParseInt s0 bitSize =
     (if s0 = [] then (0, Some (NumError ''ParseInt'' s0 ErrSyntax))
      else
        let neg = (hd s0 = CHR ''-'');
            s = (if hd s0 = CHR ''+'' \<or> hd s0 = CHR ''-'' then tl s0 else s0)
        in (case ParseUint_Err s bitSize of
              (un, err) \<Rightarrow>
                if err \<noteq> None \<and> err \<noteq> Some ErrRange
                then (0, Some (NumError ''ParseInt'' s0 (case err of Some k \<Rightarrow> k | None \<Rightarrow> ErrSyntax)))
                else
                  let bits = (if bitSize = 0 then IntSize else bitSize);
                      cutoff = (2 :: nat) ^ (bits - 1)
                  in if \<not> neg \<and> un \<ge> cutoff
                     then (int cutoff - 1, Some (NumError ''ParseInt'' s0 ErrRange))
                     else if neg \<and> un > cutoff
                     then (- int cutoff, Some (NumError ''ParseInt'' s0 ErrRange))
                     else (if neg then neg64 (int64 un) else int64 un, None)))"

subsection \<open>parseStringToSingleValue\<close>

text \<open>
  The \<open>target\<close> argument: a value that is no pointer (with its kind, \<open>K_Invalid\<close> for the
  nil interface), a nil pointer, or a pointer to a variable of a type with its current
  value.  The result is the error returned or the value the variable holds afterwards.
\<close>

datatype target = NotPointer Kind | NilPointer | PointerTo go_type go_value

definition parseStringToSingleValue :: "strconv \<Rightarrow> string \<Rightarrow> target \<Rightarrow> go_error + go_value" where
  "parseStringToSingleValue sc stringValue tgt =
     (case tgt of
        NotPointer k \<Rightarrow> Inl (errorString (''invalid target: needed pointer, got '' @ Kind_String k))
      | NilPointer \<Rightarrow> Inl (errorString (''invalid target: needed pointer, got '' @ Kind_String K_Pointer))
      | PointerTo ty cur \<Rightarrow>
          (case type_ParseString ty of
             Some ParseString \<Rightarrow>
               (case ParseString stringValue cur of
                  Inl err \<Rightarrow> Inl (wrapError (''could not parse string value: '' @ Error sc err) err)
                | Inr v \<Rightarrow> Inr v)
           | None \<Rightarrow>
               if type_Kind ty = K_Bool then
                 (case ParseBool stringValue of
                    (v, Some err) \<Rightarrow> Inl err
                  | (v, None) \<Rightarrow> Inr (VBool v))
               else if type_Kind ty \<in> {K_Float32, K_Float64} then
                 (case ParseFloat sc stringValue (type_Bits ty) of
                    Inl err \<Rightarrow> Inl err
                  | Inr v \<Rightarrow> Inr (VFloat (type_Bits ty) v))
               else if type_Kind ty \<in> {K_Int, K_Int8, K_Int16, K_Int32, K_Int64} then
                 (case ParseInt stringValue (type_Bits ty) of
                    (v, Some err) \<Rightarrow> Inl err
                  | (v, None) \<Rightarrow> Inr (VInt v))
               else if type_Kind ty = K_String then Inr (VString stringValue)
               else if type_Kind ty \<in> {K_Uint, K_Uint8, K_Uint16, K_Uint32, K_Uint64} then
                 (case ParseUint stringValue (type_Bits ty) of
                    (v, Some err) \<Rightarrow> Inl err
                  | (v, None) \<Rightarrow> Inr (VUint v))
               else Inl (errorString (''could not parse to single value: unhandled kind: ''
                                       @ Kind_String (type_Kind ty)))))"

subsection \<open>Canonical text\<close>

text \<open>
  The canonical text of a value, as \<open>strconv.FormatBool\<close>, \<open>FormatUint\<close> and
  \<open>FormatInt\<close> with base 10 print it: no sign for an unsigned number, a minus sign for a
  negative one, no leading zero.
\<close>

definition FormatBool :: "bool \<Rightarrow> string" where
  "FormatBool b = (if b then ''true'' else ''false'')"

definition digit_char :: "nat \<Rightarrow> char" where
  "digit_char d = (''0123456789'') ! (d mod 10)"

fun FormatUint :: "nat \<Rightarrow> string" where
  "FormatUint n = (if n < 10 then [digit_char n] else FormatUint (n div 10) @ [digit_char (n mod 10)])"

definition FormatInt :: "int \<Rightarrow> string" where
  "FormatInt i = (if i < 0 then CHR ''-'' # FormatUint (nat (- i)) else FormatUint (nat i))"

text \<open>
  What a decimal numeral denotes, and when a text is one: digits only and at least one,
  after one optional sign for a signed number.
\<close>

abbreviation decimal_step :: "nat \<Rightarrow> char \<Rightarrow> nat" where
  "decimal_step \<equiv> (\<lambda>a c. a * 10 + digit_val c)"

definition decimal_value :: "string \<Rightarrow> nat" where
  "decimal_value s = foldl decimal_step 0 s"

definition unsigned_numeral :: "string \<Rightarrow> bool" where
  "unsigned_numeral s = (s \<noteq> [] \<and> list_all is_digit s)"

definition unsign :: "string \<Rightarrow> string" where
  "unsign s = (if hd s = CHR ''+'' \<or> hd s = CHR ''-'' then tl s else s)"

definition signed_numeral :: "string \<Rightarrow> bool" where
  "signed_numeral s = (s \<noteq> [] \<and> unsigned_numeral (unsign s))"

definition signed_value :: "string \<Rightarrow> int" where
  "signed_value s =
     (if hd s = CHR ''-'' then - int (decimal_value (unsign s)) else int (decimal_value (unsign s)))"

text \<open>The texts \<open>ParseBool\<close> accepts.\<close>

definition bool_text :: "string \<Rightarrow> bool" where
  "bool_text s = (s \<in> {''1'', ''t'', ''T'', ''TRUE'', ''true'', ''True'',
                        ''0'', ''f'', ''F'', ''FALSE'', ''false'', ''False''})"

text \<open>The kinds of the signed and of the unsigned integer types.\<close>

definition signed_kind :: "Kind \<Rightarrow> bool" where
  "signed_kind k = (k \<in> {K_Int, K_Int8, K_Int16, K_Int32, K_Int64})"

definition unsigned_kind :: "Kind \<Rightarrow> bool" where
  "unsigned_kind k = (k \<in> {K_Uint, K_Uint8, K_Uint16, K_Uint32, K_Uint64})"

text \<open>
  A predeclared type of a kind (\<open>bool\<close>, \<open>int8\<close>, \<open>string\<close>, ...): named as its kind,
  without methods, elements or fields.
\<close>

definition basic_type :: "Kind \<Rightarrow> go_type" where
  "basic_type k = GoType k (Kind_String k) False False None [] None"

section \<open>Strings, struct values and reflection\<close>

text \<open>
  \<open>strings.Split\<close> with a one-byte separator, \<open>strings.SplitN\<close> with that separator and
  \<open>n = 2\<close>.
\<close>

fun Split :: "string \<Rightarrow> char \<Rightarrow> string list" where
  "Split [] sep = [[]]"
| "Split (c # cs) sep =
     (if c = sep then [] # Split cs sep
      else (case Split cs sep of [] \<Rightarrow> [[c]] | p # ps \<Rightarrow> (c # p) # ps))"

definition SplitN2 :: "string \<Rightarrow> char \<Rightarrow> string list" where
  "SplitN2 s sep =
     (if sep \<in> set s then [takeWhile (\<lambda>c. c \<noteq> sep) s, tl (dropWhile (\<lambda>c. c \<noteq> sep) s)]
      else [s])"

text \<open>
  \<open>unicode.IsSpace\<close>: the white space of Latin-1 and the runes of the Unicode property
  \<open>White_Space\<close> above it.
\<close>

definition IsSpace :: "nat \<Rightarrow> bool" where
  "IsSpace r =
     ((0x09 \<le> r \<and> r \<le> 0x0D) \<or> r = 0x20 \<or> r = 0x85 \<or> r = 0xA0 \<or> r = 0x1680
      \<or> (0x2000 \<le> r \<and> r \<le> 0x200A) \<or> r = 0x2028 \<or> r = 0x2029 \<or> r = 0x202F
      \<or> r = 0x205F \<or> r = 0x3000)"

text \<open>
  \<open>strings.TrimSpace\<close> is \<open>TrimFunc\<close> with \<open>unicode.IsSpace\<close>, its loops over ASCII
  apart: the runes for which \<open>f\<close> holds are dropped from the front, decoding forwards,
  then from the back, decoding backwards.
\<close>

function TrimLeftFunc :: "(nat \<Rightarrow> bool) \<Rightarrow> string \<Rightarrow> string" where
  "TrimLeftFunc f s =
     (if s = [] then []
      else (case DecodeRune (bytes s) of
              (r, w) \<Rightarrow> if f r then TrimLeftFunc f (drop w s) else s))"
  by pat_completeness auto
termination
  by (relation "measure (\<lambda>(f, s). length s)")
     (auto simp: bytes_def Let_def neq_Nil_conv split: if_splits)

function TrimRightFunc :: "(nat \<Rightarrow> bool) \<Rightarrow> string \<Rightarrow> string" where
  "TrimRightFunc f s =
     (if s = [] then []
      else (case DecodeLastRune (bytes s) of
              (r, w) \<Rightarrow> if f r then TrimRightFunc f (take (length s - w) s) else s))"
  by pat_completeness auto
termination
proof (relation "measure (\<lambda>(f, s). length s)")
  fix f :: "nat \<Rightarrow> bool" and s :: string and r w
  assume s: "s \<noteq> []" and x: "(r, w) = DecodeLastRune (bytes s)"
  let ?b = "bytes s"
  let ?starts = "filter (\<lambda>i. RuneStart (?b ! i)) (rev [length ?b - 4 ..< length ?b - 1])"
  let ?start = "(case ?starts of i # rest \<Rightarrow> i | [] \<Rightarrow> length ?b - 4 - 1)"
  have n: "0 < length ?b" using s by (simp add: bytes_def)
  have "?start < length ?b"
  proof (cases ?starts)
    case Nil
    then show ?thesis using n by simp
  next
    case (Cons i rest)
    then have "i \<in> set ?starts" by simp
    then have "i < length ?b - 1" by simp
    then show ?thesis using Cons by simp
  qed
  then have "0 < w"
    using x [symmetric] n by (auto simp: DecodeLastRune_def Let_def split: if_splits prod.splits)
  then show "((f, take (length s - w) s), (f, s)) \<in> measure (\<lambda>(f, s). length s)"
    using s by (cases s) auto
qed simp

declare TrimLeftFunc.simps [simp del] TrimRightFunc.simps [simp del]

definition TrimSpace :: "string \<Rightarrow> string" where
  "TrimSpace s = TrimRightFunc IsSpace (TrimLeftFunc IsSpace s)"

text \<open>
  The zero value of a type (\<open>reflect.New(t).Elem()\<close>, \<open>reflect.Zero(t)\<close>).
\<close>

fun Zero :: "go_type \<Rightarrow> go_value"
and Zero_fields :: "StructField list \<Rightarrow> go_value list" where
  "Zero (GoType k s c e el fs ps) =
     (if k = K_Bool then VBool False
      else if signed_kind k then VInt 0
      else if unsigned_kind k \<or> k = K_Uintptr then VUint 0
      else if k = K_Float32 \<or> k = K_Float64 then VFloat (Kind_Bits k) 0
      else if k = K_String then VString []
      else if k = K_Pointer then VPointer None
      else if k = K_Slice then VNilSlice
      else if k = K_Struct then VStruct (Zero_fields fs)
      else VOther s)"
| "Zero_fields [] = []"
| "Zero_fields (StructField n p a t tag # fs) = Zero t # Zero_fields fs"

text \<open>Reading and writing the field of a struct value at an index path.\<close>

fun FieldByIndex :: "go_value \<Rightarrow> nat list \<Rightarrow> go_value" where
  "FieldByIndex v [] = v"
| "FieldByIndex (VStruct vs) (i # is) = (if i < length vs then FieldByIndex (vs ! i) is else VOther [])"
| "FieldByIndex v (i # is) = VOther []"

fun SetByIndex :: "go_value \<Rightarrow> nat list \<Rightarrow> go_value \<Rightarrow> go_value" where
  "SetByIndex v [] x = x"
| "SetByIndex (VStruct vs) (i # is) x =
     (if i < length vs then VStruct (vs[i := SetByIndex (vs ! i) is x]) else VStruct vs)"
| "SetByIndex v (i # is) x = v"

text \<open>
  Every field reachable through embedded structs, with its depth, its index path, whether
  the path goes through an embedded pointer, and the field.  An embedded field is entered
  when its type is a struct or a pointer to one.
\<close>

fun promoted :: "nat \<Rightarrow> nat list \<Rightarrow> bool \<Rightarrow> nat \<Rightarrow> StructField list
                  \<Rightarrow> (nat \<times> nat list \<times> bool \<times> StructField) list" where
  "promoted d idx ptr i [] = []"
| "promoted d idx ptr i (StructField n p a (GoType k s c e el fs ps) tag # rest) =
     (d, idx @ [i], ptr, StructField n p a (GoType k s c e el fs ps) tag)
     # (if a \<and> k = K_Struct then promoted (Suc d) (idx @ [i]) ptr 0 fs
        else if a \<and> k = K_Pointer then
          (case el of
             Some (GoType k' s' c' e' el' fs' ps') \<Rightarrow>
               if k' = K_Struct then promoted (Suc d) (idx @ [i]) True 0 fs' else []
           | None \<Rightarrow> [])
        else [])
     @ promoted d idx ptr (Suc i) rest"

text \<open>
  \<open>Value.FieldByName\<close> on a struct value that is settable and holds no embedded pointer
  but nil, as the zero metadata record is.  The type is searched as \<open>Type.FieldByName\<close>
  does: the first top-level field of that name; failing that, when the name is not empty
  and a top-level field is embedded, the one field of that name at the least depth, and
  nothing when there are several.  Then the value is walked along the index path: a nil
  embedded pointer on the way panics, and the field is read-only when it is unexported.
\<close>

datatype found = NotFound | Found "nat list" bool StructField

definition Type_FieldByName :: "StructField list \<Rightarrow> string \<Rightarrow> found" where
  "Type_FieldByName fs name =
     (case (if name \<noteq> [] then find (\<lambda>i. field_Name (fs ! i) = name) [0..<length fs] else None) of
        Some i \<Rightarrow> Found [i] False (fs ! i)
      | None \<Rightarrow>
          if name = [] \<or> \<not> list_ex field_Anonymous fs then NotFound
          else
            let cands = filter (\<lambda>(d, idx, ptr, f). field_Name f = name) (promoted 0 [] False 0 fs)
            in if cands = [] then NotFound
               else
                 let dmin = foldr min (map fst cands) (fst (hd cands));
                     level = filter (\<lambda>(d, idx, ptr, f). d = dmin) cands
                 in (case level of
                       [(d, idx, ptr, f)] \<Rightarrow> Found idx ptr f
                     | _ \<Rightarrow> NotFound))"

definition FieldByName :: "go_type \<Rightarrow> string \<Rightarrow> failure + rvalue" where
  "FieldByName t name =
     (if type_Kind t \<noteq> K_Struct
      then Inl (Panicked (''reflect: call of reflect.Value.FieldByName on '' @ Kind_String (type_Kind t) @ '' Value''))
      else (case Type_FieldByName (type_Fields t) name of
              NotFound \<Rightarrow> Inr ZeroValue
            | Found idx ptr f \<Rightarrow>
                if ptr then Inl (Panicked ''reflect: indirection through nil pointer to embedded struct'')
                else Inr (FieldValue idx (field_Type f)
                            (if field_PkgPath f = [] then Settable else ReadOnly))))"

text \<open>
  The operations of \<open>reflect.Value\<close> the binders use on a field \<open>v\<close> of the metadata
  record \<open>md\<close>: \<open>Kind\<close>, \<open>CanSet\<close>, \<open>Set\<close> (which panics unless \<open>CanSet\<close>), and
  \<open>Addr().Interface()\<close>, which panics on the zero Value and on a read-only field and
  otherwise is a pointer to the field.
\<close>

fun rv_Kind :: "rvalue \<Rightarrow> Kind" where
  "rv_Kind ZeroValue = K_Invalid"
| "rv_Kind (FieldValue idx t fl) = type_Kind t"

fun CanSet :: "rvalue \<Rightarrow> bool" where
  "CanSet ZeroValue = False"
| "CanSet (FieldValue idx t fl) = (fl = Settable)"

fun Set :: "rvalue \<Rightarrow> go_value \<Rightarrow> go_value \<Rightarrow> failure + go_value" where
  "Set ZeroValue x md = Inl (Panicked ''reflect: call of reflect.Value.Set on zero Value'')"
| "Set (FieldValue idx t fl) x md =
     (if fl = Settable then Inr (SetByIndex md idx x)
      else Inl (Panicked ''reflect: reflect.Value.Set using value obtained using unexported field''))"

fun Addr_Interface :: "rvalue \<Rightarrow> go_value \<Rightarrow> failure + target" where
  "Addr_Interface ZeroValue md = Inl (Panicked ''reflect.Value.Addr of unaddressable value'')"
| "Addr_Interface (FieldValue idx t fl) md =
     (if fl = Settable then Inr (PointerTo t (FieldByIndex md idx))
      else Inl (Panicked ''reflect.Value.Interface: cannot return value obtained from unexported field or method''))"

section \<open>The error constructors and how errors are rendered\<close>

text \<open>
  \<open>httperror.ErrorFromStatus\<close> is outside the package; the package's tests fix what it
  is used for: \<open>Code()\<close> of an \<open>APIResponseError\<close> built on it returns the status.
\<close>

definition ErrorFromStatus :: "int \<Rightarrow> int option" where
  "ErrorFromStatus code = Some code"

definition StatusOK :: int where "StatusOK = 200"
definition StatusBadRequest :: int where "StatusBadRequest = 400"
definition StatusInternalServerError :: int where "StatusInternalServerError = 500"

definition NewAPIBodyError :: "strconv \<Rightarrow> go_error \<Rightarrow> go_error" where
  "NewAPIBodyError sc bodyError =
     APIBodyError bodyError (APIResponseError (Error sc bodyError) (ErrorFromStatus StatusBadRequest))"

definition NewAPIHeaderParameterError :: "strconv \<Rightarrow> string \<Rightarrow> go_error \<Rightarrow> go_error" where
  "NewAPIHeaderParameterError sc parameter parameterError =
     APIHeaderParameterError parameter parameterError
       (APIResponseError (Error sc parameterError) (ErrorFromStatus StatusBadRequest))"

definition NewAPIPathParameterError :: "strconv \<Rightarrow> string \<Rightarrow> go_error \<Rightarrow> go_error" where
  "NewAPIPathParameterError sc parameter parameterError =
     APIPathParameterError parameter parameterError
       (APIResponseError (Error sc parameterError) (ErrorFromStatus StatusBadRequest))"

definition NewAPIQueryParameterError :: "strconv \<Rightarrow> string \<Rightarrow> go_error \<Rightarrow> go_error" where
  "NewAPIQueryParameterError sc parameter parameterError =
     APIQueryParameterError parameter parameterError
       (APIResponseError (Error sc parameterError) (ErrorFromStatus StatusBadRequest))"

text \<open>
  \<open>APIResponseError.Code\<close>; on any other error value, reached only if one of the package's
  errors is built with something else in its \<open>apiResponseError\<close> field, the status of an
  internal error.
\<close>

fun Code :: "go_error \<Rightarrow> int" where
  "Code (APIResponseError m (Some code)) = code"
| "Code e = StatusInternalServerError"

text \<open>
  \<open>WriteError\<close> of the error types that implement \<open>ErrorWriter\<close>: what it does to the
  response, \<open>None\<close> for a type that does not implement it.
\<close>

fun WriteError :: "strconv \<Rightarrow> go_error \<Rightarrow> resp_op list option" where
  "WriteError sc (APIResponseError m h) =
     Some [WriteHeaderAndEntity (Code (APIResponseError m h))
             (APIResponseErrorOutput (TypeName (APIResponseError m h)) m)]"
| "WriteError sc (APIBodyError b r) =
     Some [WriteHeaderAndEntity (Code r)
             (APIResponseErrorOutput (TypeName (APIBodyError b r)) (Error sc (APIBodyError b r)))]"
| "WriteError sc (APIHeaderParameterError p e r) =
     Some [WriteHeaderAndEntity (Code r)
             (APIHeaderParameterErrorOutput (TypeName (APIHeaderParameterError p e r)) (message r) p)]"
| "WriteError sc (APIPathParameterError p e r) =
     Some [WriteHeaderAndEntity (Code r)
             (APIPathParameterErrorOutput (TypeName (APIPathParameterError p e r)) (message r) p)]"
| "WriteError sc (APIQueryParameterError p e r) =
     Some [WriteHeaderAndEntity (Code r)
             (APIQueryParameterErrorOutput (TypeName (APIQueryParameterError p e r)) (message r) p)]"
| "WriteError sc (customError t m w u) = w"
| "WriteError sc e = None"

text \<open>
  \<open>errors.As(err, &errorWriter)\<close>: the first error of the tree, the error itself before
  what it unwraps to and that in order, that implements \<open>ErrorWriter\<close>.  A
  \<open>*strconv.NumError\<close> unwraps to a sentinel and an \<open>APIResponseError\<close> to its
  \<open>httpError\<close>, neither of which implements it.
\<close>

fun As_ErrorWriter :: "go_error \<Rightarrow> go_error option"
and As_ErrorWriter_list :: "go_error list \<Rightarrow> go_error option" where
  "As_ErrorWriter (errorString m) = None"
| "As_ErrorWriter (wrapError m e) = As_ErrorWriter e"
| "As_ErrorWriter (NumError f n k) = None"
| "As_ErrorWriter (APIResponseError m h) = Some (APIResponseError m h)"
| "As_ErrorWriter (APIBodyError b r) = Some (APIBodyError b r)"
| "As_ErrorWriter (APIHeaderParameterError p e r) = Some (APIHeaderParameterError p e r)"
| "As_ErrorWriter (APIPathParameterError p e r) = Some (APIPathParameterError p e r)"
| "As_ErrorWriter (APIQueryParameterError p e r) = Some (APIQueryParameterError p e r)"
| "As_ErrorWriter (customError t m w u) =
     (if w \<noteq> None then Some (customError t m w u) else As_ErrorWriter_list u)"
| "As_ErrorWriter_list [] = None"
| "As_ErrorWriter_list (e # es) =
     (case As_ErrorWriter e of Some x \<Rightarrow> Some x | None \<Rightarrow> As_ErrorWriter_list es)"

section \<open>The binders of the built-in directives\<close>

text \<open>
  The binder the \<open>path\<close> directive returns, and that of the \<open>header\<close> directive: read the
  parameter, parse it into the field, wrap a parse error.
\<close>

definition path_binder :: "strconv \<Rightarrow> string \<Rightarrow> InputFieldFunction" where
  "path_binder sc apiTagValue info v req md =
     (let stringValue = req_PathParameter req apiTagValue
      in (case Addr_Interface v md of
            Inl p \<Rightarrow> Inl p
          | Inr tgt \<Rightarrow>
              (case parseStringToSingleValue sc stringValue tgt of
                 Inl err \<Rightarrow> Inl (Failed (NewAPIPathParameterError sc apiTagValue err))
               | Inr x \<Rightarrow> Set v x md)))"

definition header_binder :: "strconv \<Rightarrow> string \<Rightarrow> InputFieldFunction" where
  "header_binder sc apiTagValue info v req md =
     (let stringValue = req_HeaderParameter req apiTagValue
      in (case Addr_Interface v md of
            Inl p \<Rightarrow> Inl p
          | Inr tgt \<Rightarrow>
              (case parseStringToSingleValue sc stringValue tgt of
                 Inl err \<Rightarrow> Inl (Failed (NewAPIHeaderParameterError sc apiTagValue err))
               | Inr x \<Rightarrow> Set v x md)))"

text \<open>
  The binders that write a string or a handle into the field when it can be set.
\<close>

definition set_if_CanSet :: "rvalue \<Rightarrow> go_value \<Rightarrow> go_value \<Rightarrow> failure + go_value" where
  "set_if_CanSet v x md = (if CanSet v then Set v x md else Inr md)"

definition doc_binder :: InputFieldFunction where
  "doc_binder info v req md = set_if_CanSet v (VString (Doc info)) md"

definition notes_binder :: InputFieldFunction where
  "notes_binder info v req md = set_if_CanSet v (VString (Notes info)) md"

definition httpmethod_binder :: InputFieldFunction where
  "httpmethod_binder info v req md = set_if_CanSet v (VString (req_Method req)) md"

definition httppath_binder :: InputFieldFunction where
  "httppath_binder info v req md = set_if_CanSet v (VString (req_URLPath req)) md"

definition httprequest_binder :: InputFieldFunction where
  "httprequest_binder info v req md = set_if_CanSet v (VOther ''*http.Request'') md"

definition restfulrequest_binder :: InputFieldFunction where
  "restfulrequest_binder info v req md = set_if_CanSet v (VOther ''*restful.Request'') md"

definition produces_binder :: "string \<Rightarrow> InputFieldFunction" where
  "produces_binder apiTagValue info v req md = set_if_CanSet v (VString apiTagValue) md"

text \<open>
  The \<open>query\<close> binder.  First the loop over the names: the first name with a value, and
  its values.
\<close>

fun query_match :: "(string \<Rightarrow> string list) \<Rightarrow> string list \<Rightarrow> string \<times> string list" where
  "query_match q [] = ([], [])"
| "query_match q (n # ns) = (if length (q n) > 0 then (n, q n) else query_match q ns)"

text \<open>
  One value of the query parameter into one variable of a type, the field or an element
  of the slice: a pointer variable gets a new element and the value is parsed into that,
  any other is parsed into in place.
\<close>

definition query_parse :: "strconv \<Rightarrow> string \<Rightarrow> string \<Rightarrow> go_type \<Rightarrow> go_value \<Rightarrow> failure + go_value" where
  "query_parse sc name stringValue t cur =
     (if type_Kind t = K_Pointer then
        (case type_Elem t of
           None \<Rightarrow> Inl (Panicked ''reflect: Elem of invalid type'')
         | Some el \<Rightarrow>
             (case parseStringToSingleValue sc stringValue (PointerTo el (Zero el)) of
                Inl err \<Rightarrow> Inl (Failed (NewAPIQueryParameterError sc name err))
              | Inr x \<Rightarrow> Inr (VPointer (Some x))))
      else
        (case parseStringToSingleValue sc stringValue (PointerTo t cur) of
           Inl err \<Rightarrow> Inl (Failed (NewAPIQueryParameterError sc name err))
         | Inr x \<Rightarrow> Inr x))"

text \<open>The loop over the values into the elements of the new slice.\<close>

fun query_slice :: "strconv \<Rightarrow> string \<Rightarrow> go_type \<Rightarrow> string list \<Rightarrow> failure + go_value list" where
  "query_slice sc name el [] = Inr []"
| "query_slice sc name el (stringValue # rest) =
     (case query_parse sc name stringValue el (Zero el) of
        Inl f \<Rightarrow> Inl f
      | Inr x \<Rightarrow> (case query_slice sc name el rest of Inl f \<Rightarrow> Inl f | Inr xs \<Rightarrow> Inr (x # xs)))"

definition query_binder :: "strconv \<Rightarrow> string list \<Rightarrow> StructField \<Rightarrow> InputFieldFunction" where
  "query_binder sc names field info v req md =
     (let (name, matched) = query_match (req_QueryParameters req) names;
          stringValues =
            (if length matched = 0
             then (case Tag_Lookup (field_Tag field) ''default'' of
                     Some defaultValue \<Rightarrow> [defaultValue]
                   | None \<Rightarrow> matched)
             else matched)
      in if rv_Kind v = K_Slice then
           (case type_Elem (rv_Type v) of
              None \<Rightarrow> Inl (Panicked ''reflect.MakeSlice of non-slice type'')
            | Some el \<Rightarrow>
                (case Set v (VSlice (replicate (length stringValues) (Zero el))) md of
                   Inl p \<Rightarrow> Inl p
                 | Inr md' \<Rightarrow>
                     (case query_slice sc name el stringValues of
                        Inl f \<Rightarrow> Inl f
                      | Inr xs \<Rightarrow> Set v (VSlice xs) md')))
         else if length stringValues > 0 then
           (let stringValue = hd stringValues
            in if rv_Kind v = K_Pointer then
                 (case Set v (VPointer None) md of
                    Inl p \<Rightarrow> Inl p
                  | Inr md' \<Rightarrow>
                      (case query_parse sc name stringValue (rv_Type v) (VPointer None) of
                         Inl f \<Rightarrow> Inl f
                       | Inr x \<Rightarrow> Set v x md'))
               else
                 (case Addr_Interface v md of
                    Inl p \<Rightarrow> Inl p
                  | Inr tgt \<Rightarrow>
                      (case parseStringToSingleValue sc stringValue tgt of
                         Inl err \<Rightarrow> Inl (Failed (NewAPIQueryParameterError sc name err))
                       | Inr x \<Rightarrow> Set v x md)))
         else Inr md)"

text \<open>
  The \<open>body\<close> binder, for a field of a type and whether an empty body is allowed.  The
  content type is the first of \<open>Consumes\<close> as the record holds it when the binder runs.
\<close>

definition body_binder :: "strconv \<Rightarrow> bool \<Rightarrow> StructField \<Rightarrow> InputFieldFunction" where
  "body_binder sc allowEmpty field info v req md =
     (if \<not> allowEmpty then
        (case Set v (Zero (field_Type field)) md of
           Inl p \<Rightarrow> Inl p
         | Inr md0 \<Rightarrow>
             let contentType = (if length (Consumes info) > 0 then hd (Consumes info) else [])
             in if contentType = ''application/x-www-form-urlencoded'' then
                  (case req_ParseForm req of
                     Inl err \<Rightarrow> Inl (Failed (NewAPIBodyError sc err))
                   | Inr postForm \<Rightarrow>
                       if type_String (field_Type field) = ''url.Values'' then Set v postForm md0
                       else if type_String (field_Type field) = ''*url.Values''
                       then Set v (VPointer (Some postForm)) md0
                       else Inr md0)
                else if contentType = ''multipart/form-data'' then
                  (case req_ReadForm req of
                     Inl err \<Rightarrow> Inl (Failed (NewAPIBodyError sc err))
                   | Inr multipartForm \<Rightarrow>
                       if type_String (field_Type field) = ''multipart.Form'' then Set v multipartForm md0
                       else if type_String (field_Type field) = ''*multipart.Form''
                       then Set v (VPointer (Some multipartForm)) md0
                       else Inr md0)
                else if rv_Kind v = K_String then
                  (case req_ReadAll req of
                     Inl err \<Rightarrow> Inl (Failed (NewAPIBodyError sc err))
                   | Inr contents \<Rightarrow> Set v (VString contents) md0)
                else if type_String (rv_Type v) = ''[]byte'' then
                  (case req_ReadAll req of
                     Inl err \<Rightarrow> Inl (Failed (NewAPIBodyError sc err))
                   | Inr contents \<Rightarrow> Set v (VSlice (map (\<lambda>c. VUint (of_char c)) contents)) md0)
                else
                  (case req_ReadEntity req (rv_Type v) of
                     Inl err \<Rightarrow> Inl (Failed (NewAPIBodyError sc err))
                   | Inr x \<Rightarrow> Set v x md0))
      else Inr md)"

section \<open>The built-in directives\<close>

text \<open>
  The factories registered by \<open>init\<close>, one definition each, in the order of the source.
\<close>

text \<open>The loop of the \<open>body\<close> factory over the parts of the tag value.\<close>

fun body_tagParts :: "string list \<Rightarrow> string list \<Rightarrow> bool \<Rightarrow> failure + (string list \<times> bool)" where
  "body_tagParts [] consumes allowEmpty = Inr (consumes, allowEmpty)"
| "body_tagParts (tagPart # rest) consumes allowEmpty =
     (let tagPartParts = SplitN2 tagPart CHR '':'';
          tagPartKey = hd tagPartParts;
          tagPartValue = (if length tagPartParts > 1 then tagPartParts ! 1 else [])
      in if tagPartKey = ''consumes''
         then body_tagParts rest (consumes @ map TrimSpace (Split tagPartValue CHR '','')) allowEmpty
         else if tagPartKey = ''empty'' then
           (if tagPartValue \<noteq> []
            then Inl (Failed (errorString (''invalid body tag value for empty: '' @ tagPartValue)))
            else body_tagParts rest consumes True)
         else Inl (Failed (errorString (''invalid body tag: '' @ tagPartKey))))"

definition register_body :: "strconv \<Rightarrow> RegisterFunction" where
  "register_body sc apiTagValue field info =
     (case (if length apiTagValue > 0 then body_tagParts (Split apiTagValue CHR '';'') [] False
            else Inr ([], False)) of
        Inl f \<Rightarrow> Inl f
      | Inr (consumes, allowEmpty) \<Rightarrow>
          let info1 = (if \<not> allowEmpty then info\<lparr>BodyExample := Some (Zero (field_Type field))\<rparr> else info);
              info2 = info1\<lparr>Consumes := consumes\<rparr>;
              ts = type_String (field_Type field);
              info3 =
                (if ts = ''url.Values'' \<or> ts = ''*url.Values'' then
                   (if length (Consumes info2) = 0
                    then info2\<lparr>Consumes := Consumes info2 @ [''application/x-www-form-urlencoded'']\<rparr>
                    else info2)
                 else if ts = ''multipart.Form'' \<or> ts = ''*multipart.Form'' then
                   (if length (Consumes info2) = 0
                    then info2\<lparr>Consumes := Consumes info2 @ [''multipart/form-data'']\<rparr>
                    else info2)
                 else info2)
          in if ''application/x-www-form-urlencoded'' \<in> set (Consumes info3)
                \<and> \<not> (ts = ''url.Values'' \<or> ts = ''*url.Values'')
             then Inl (Failed (errorString
                    (''invalid type for content-type application/x-www-form-urlencoded: '' @ ts)))
             else if ''multipart/form-data'' \<in> set (Consumes info3)
                \<and> \<not> (ts = ''multipart.Form'' \<or> ts = ''*multipart.Form'')
             then Inl (Failed (errorString (''invalid type for content-type multipart/form-data: '' @ ts)))
             else Inr (Some (body_binder sc allowEmpty field), info3))"

definition register_doc :: RegisterFunction where
  "register_doc apiTagValue field info =
     (if apiTagValue \<noteq> [] then Inl (Failed (errorString (''unexpected tag value: '' @ apiTagValue)))
      else if type_Kind (field_Type field) \<noteq> K_String
      then Inl (Failed (errorString (''bad kind: '' @ Kind_String (type_Kind (field_Type field)))))
      else Inr (Some doc_binder, info\<lparr>Doc := Tag_Get (field_Tag field) ''description''\<rparr>))"

definition register_header :: "strconv \<Rightarrow> RegisterFunction" where
  "register_header sc apiTagValue field info =
     (if apiTagValue = [] then Inl (Failed (errorString ''missing tag value''))
      else if list_ex (\<lambda>item. hp_Name item = apiTagValue) (HeaderParameters info)
      then Inl (Failed (errorString ''duplicate header tag''))
      else Inr (Some (header_binder sc apiTagValue),
                info\<lparr>HeaderParameters := HeaderParameters info @
                  [RestfulFunctionHeaderParameter (field_Name field) apiTagValue
                     (Tag_Get (field_Tag field) ''description'') False]\<rparr>))"

definition register_httpmethod :: RegisterFunction where
  "register_httpmethod apiTagValue field info =
     (if apiTagValue = [] then Inl (Failed (errorString (''missing tag value: '' @ apiTagValue)))
      else if type_Kind (field_Type field) \<noteq> K_String
      then Inl (Failed (errorString (''bad kind: '' @ Kind_String (type_Kind (field_Type field)))))
      else Inr (Some httpmethod_binder, info\<lparr>HTTPMethod := apiTagValue\<rparr>))"

definition register_httppath :: RegisterFunction where
  "register_httppath apiTagValue field info =
     (if apiTagValue = [] then Inl (Failed (errorString (''missing tag value: '' @ apiTagValue)))
      else if type_Kind (field_Type field) \<noteq> K_String
      then Inl (Failed (errorString (''bad kind: '' @ Kind_String (type_Kind (field_Type field)))))
      else Inr (Some httppath_binder, info\<lparr>HTTPPath := apiTagValue\<rparr>))"

definition register_httprequest :: RegisterFunction where
  "register_httprequest apiTagValue field info =
     (if apiTagValue \<noteq> [] then Inl (Failed (errorString (''unexpected tag value: '' @ apiTagValue)))
      else if type_String (field_Type field) \<noteq> ''*http.Request''
      then Inl (Failed (errorString (''bad type: '' @ type_String (field_Type field))))
      else Inr (Some httprequest_binder, info))"

definition register_notes :: RegisterFunction where
  "register_notes apiTagValue field info =
     (if apiTagValue \<noteq> [] then Inl (Failed (errorString (''unexpected tag value: '' @ apiTagValue)))
      else if type_Kind (field_Type field) \<noteq> K_String
      then Inl (Failed (errorString (''bad kind: '' @ Kind_String (type_Kind (field_Type field)))))
      else Inr (Some notes_binder, info\<lparr>Notes := Tag_Get (field_Tag field) ''description''\<rparr>))"

definition register_path :: "strconv \<Rightarrow> RegisterFunction" where
  "register_path sc apiTagValue field info =
     (if apiTagValue = [] then Inl (Failed (errorString ''missing tag value''))
      else if list_ex (\<lambda>item. pp_Name item = apiTagValue) (PathParameters info)
      then Inl (Failed (errorString ''duplicate path tag''))
      else Inr (Some (path_binder sc apiTagValue),
                info\<lparr>PathParameters := PathParameters info @
                  [RestfulFunctionPathParameter (field_Name field) apiTagValue
                     (Tag_Get (field_Tag field) ''description'')]\<rparr>))"

definition register_produces :: RegisterFunction where
  "register_produces apiTagValue field info =
     (if apiTagValue = [] then Inl (Failed (errorString ''missing tag value''))
      else if type_String (field_Type field) \<noteq> ''string''
      then Inl (Failed (errorString (''bad type: '' @ type_String (field_Type field))))
      else Inr (Some (produces_binder apiTagValue), info\<lparr>Produces := Produces info @ [apiTagValue]\<rparr>))"

text \<open>
  The \<open>query\<close> factory: every name is looked up among the parameters registered so far,
  then the first name is appended as the parameter and each other name as a deprecated
  one.
\<close>

definition register_query :: "strconv \<Rightarrow> RegisterFunction" where
  "register_query sc apiTagValue field info =
     (if apiTagValue = [] then Inl (Failed (errorString ''missing tag value''))
      else
        let names = map TrimSpace (Split apiTagValue CHR '','');
            primaryName = hd names
        in (case find (\<lambda>name. list_ex (\<lambda>item. qp_Name item = name) (QueryParameters info)) names of
              Some name \<Rightarrow> Inl (Failed (errorString (''duplicate query tag: '' @ name)))
            | None \<Rightarrow>
                Inr (Some (query_binder sc names field),
                     info\<lparr>QueryParameters := QueryParameters info @
                       [RestfulFunctionQueryParameter (field_Name field) primaryName
                          (Tag_Get (field_Tag field) ''description'')
                          (type_Kind (field_Type field) = K_Slice)]
                       @ map (\<lambda>name. RestfulFunctionQueryParameter (field_Name field) name
                                (''Deprecated; use '' @ [CHR 0x22] @ primaryName @ [CHR 0x22] @ '' instead.'')
                                (type_Kind (field_Type field) = K_Slice))
                           (tl names)\<rparr>)))"

definition register_restfulrequest :: RegisterFunction where
  "register_restfulrequest apiTagValue field info =
     (if apiTagValue \<noteq> [] then Inl (Failed (errorString (''unexpected tag value: '' @ apiTagValue)))
      else if type_String (field_Type field) \<noteq> ''*restful.Request''
      then Inl (Failed (errorString (''bad type: '' @ type_String (field_Type field))))
      else Inr (Some restfulrequest_binder, info))"

text \<open>
  \<open>registeredFunctionMap\<close> after \<open>init\<close>: \<open>Register\<close> called on the empty map with each
  directive in turn; none panics, the keys being distinct.
\<close>

definition init :: "strconv \<Rightarrow> registry" where
  "init sc =
     fold (\<lambda>(apiTagKey, f) m. snd (Register apiTagKey (Some f) m))
       [(''body'', register_body sc),
        (''doc'', register_doc),
        (''header'', register_header sc),
        (''httpmethod'', register_httpmethod),
        (''httppath'', register_httppath),
        (''httprequest'', register_httprequest),
        (''notes'', register_notes),
        (''path'', register_path sc),
        (''produces'', register_produces),
        (''query'', register_query sc),
        (''restfulrequest'', register_restfulrequest)]
       Map.empty"

section \<open>Analysing a function\<close>

text \<open>
  The part of \<open>handleField\<close> for a field that is not embedded: the \<open>api\<close> tag, split at
  the first colon, names the directive; its factory may add to the record and return a
  binder.
\<close>

definition handleField_tag :: "strconv \<Rightarrow> registry \<Rightarrow> RestfulFunctionInfo \<Rightarrow> StructField \<Rightarrow> failure + RestfulFunctionInfo" where
  "handleField_tag sc registeredFunctionMap info field =
     (let apiTagText = Tag_Get (field_Tag field) ''api''
      in if apiTagText = [] then Inr info
         else
           let parts = SplitN2 apiTagText CHR '':'';
               apiTagKey = hd parts;
               apiTagValue = (if length parts > 1 then parts ! 1 else [])
           in if apiTagKey = ''-'' then Inr info
              else (case registeredFunctionMap apiTagKey of
                      Some (Some registeredFunction) \<Rightarrow>
                        (case registeredFunction apiTagValue field info of
                           Inl (Failed err) \<Rightarrow>
                             Inl (Failed (wrapError (field_Name field @ '': '' @ Error sc err) err))
                         | Inl (Panicked p) \<Rightarrow> Inl (Panicked p)
                         | Inr (Some inputFieldFunction, info') \<Rightarrow>
                             Inr (info'\<lparr>InputFields := InputFields info'
                                          @ [InputField (field_Name field) inputFieldFunction]\<rparr>)
                         | Inr (None, info') \<Rightarrow> Inr info')
                    | _ \<Rightarrow> Inl (Failed (errorString (''unhandled API tag: '' @ apiTagKey)))))"

text \<open>
  \<open>handleField\<close>, with its loop over the fields of an embedded struct.  \<open>NumField\<close>
  panics on a type that is no struct.
\<close>

fun handleField :: "strconv \<Rightarrow> registry \<Rightarrow> RestfulFunctionInfo \<Rightarrow> StructField \<Rightarrow> failure + RestfulFunctionInfo"
and handleField_loop :: "strconv \<Rightarrow> registry \<Rightarrow> RestfulFunctionInfo \<Rightarrow> StructField list \<Rightarrow> failure + RestfulFunctionInfo" where
  "handleField sc reg info (StructField n p a (GoType k s c e el fs ps) tag) =
     (if a then
        (if k \<noteq> K_Struct then Inl (Panicked (''reflect: NumField of non-struct type '' @ s))
         else handleField_loop sc reg info fs)
      else handleField_tag sc reg info (StructField n p a (GoType k s c e el fs ps) tag))"
| "handleField_loop sc reg info [] = Inr info"
| "handleField_loop sc reg info (f # rest) =
     (case handleField sc reg info f of
        Inl err \<Rightarrow> Inl err
      | Inr info' \<Rightarrow> handleField_loop sc reg info' rest)"

text \<open>The loops of \<open>ParseRestfulFunction\<close> over the parameters and over the results.\<close>

fun scan_In :: "int \<Rightarrow> go_type list \<Rightarrow> RestfulFunctionInfo \<Rightarrow> failure + RestfulFunctionInfo" where
  "scan_In i [] info = Inr info"
| "scan_In i (argumentType # rest) info =
     (if Implements_Context argumentType then
        (if InContextPosition info \<ge> 0 then Inl (Failed (errorString ''multiple context.Context arguments''))
         else scan_In (i + 1) rest (info\<lparr>InContextPosition := i\<rparr>))
      else
        (if InMetadataPosition info \<ge> 0 then Inl (Failed (errorString ''multiple input arguments''))
         else scan_In (i + 1) rest (info\<lparr>InMetadataPosition := i, InMetadataType := Some argumentType\<rparr>)))"

fun scan_Out :: "int \<Rightarrow> go_type list \<Rightarrow> RestfulFunctionInfo \<Rightarrow> failure + RestfulFunctionInfo" where
  "scan_Out i [] info = Inr info"
| "scan_Out i (argumentType # rest) info =
     (if Implements_error argumentType then
        (if OutErrorPosition info \<ge> 0 then Inl (Failed (errorString ''multiple error arguments''))
         else scan_Out (i + 1) rest (info\<lparr>OutErrorPosition := i\<rparr>))
      else
        (if OutResponsePosition info \<ge> 0 then Inl (Failed (errorString ''multiple output arguments''))
         else scan_Out (i + 1) rest (info\<lparr>OutResponsePosition := i\<rparr>)))"

text \<open>The loop over the fields of the metadata record, which names the field in the error.\<close>

fun walk_fields :: "strconv \<Rightarrow> registry \<Rightarrow> RestfulFunctionInfo \<Rightarrow> StructField list \<Rightarrow> failure + RestfulFunctionInfo" where
  "walk_fields sc reg info [] = Inr info"
| "walk_fields sc reg info (field # rest) =
     (case handleField sc reg info field of
        Inl (Failed err) \<Rightarrow>
          Inl (Failed (wrapError (''could not handle field '' @ Quote sc (field_Name field) @ '': '' @ Error sc err) err))
      | Inl (Panicked p) \<Rightarrow> Inl (Panicked p)
      | Inr info' \<Rightarrow> walk_fields sc reg info' rest)"

definition new_info :: "go_func \<Rightarrow> RestfulFunctionInfo" where
  "new_info f =
     \<lparr>FunctionValue = f, InContextPosition = - 1, InMetadataPosition = - 1, InMetadataType = None,
      OutErrorPosition = - 1, OutResponsePosition = - 1, HTTPMethod = [], HTTPPath = [],
      Doc = [], Notes = [], PathParameters = [], QueryParameters = [], HeaderParameters = [],
      BodyExample = None, ResponseExample = None, Consumes = [], Produces = [],
      LocalMap = Map.empty, InputFields = []\<rparr>"

definition ParseRestfulFunction :: "strconv \<Rightarrow> registry \<Rightarrow> go_iface \<Rightarrow> failure + RestfulFunctionInfo" where
  "ParseRestfulFunction sc reg f =
     (case f of
        NilIface \<Rightarrow> Inl (Failed (errorString ''expected function; got nil''))
      | NonFunc k \<Rightarrow> Inl (Failed (errorString (''expected function; got '' @ Kind_String k)))
      | FuncValue fv \<Rightarrow>
          (case scan_In 0 (func_In fv) (new_info fv) of
             Inl err \<Rightarrow> Inl err
           | Inr info1 \<Rightarrow>
               (case scan_Out 0 (func_Out fv) info1 of
                  Inl err \<Rightarrow> Inl err
                | Inr info2 \<Rightarrow>
                    let info3 =
                          (if OutResponsePosition info2 \<ge> 0
                           then info2\<lparr>ResponseExample :=
                                  Some (VPointer (Some (Zero (func_Out fv ! nat (OutResponsePosition info2)))))\<rparr>
                           else info2)
                    in if InMetadataPosition info3 \<ge> 0 then
                         (let argumentType0 = func_In fv ! nat (InMetadataPosition info3)
                          in (case (if type_Kind argumentType0 = K_Pointer then type_Elem argumentType0
                                    else Some argumentType0) of
                                None \<Rightarrow> Inl (Panicked ''reflect: Elem of invalid type'')
                              | Some argumentType \<Rightarrow>
                                  if type_Kind argumentType \<noteq> K_Struct
                                  then Inl (Failed (errorString (''unexpected input type: ''
                                                       @ Kind_String (type_Kind argumentType))))
                                  else walk_fields sc reg info3 (type_Fields argumentType)))
                       else Inr info3)))"

section \<open>Dispatching a request\<close>

text \<open>
  What a dispatch leaves behind: the fields whose binders were called, in order; the
  argument lists the handler was called with; the response; and the error returned or the
  panic, if any.
\<close>

record Outcome =
  bound :: "string list"
  called :: "go_arg list list"
  response :: Response
  failed :: "failure option"

text \<open>
  The loop over \<open>InputFields\<close>: look the field up by name in the metadata value, call its
  binder, stop at the first failure.
\<close>

fun run_binders :: "RestfulFunctionMeta \<Rightarrow> go_type \<Rightarrow> Request \<Rightarrow> InputField list \<Rightarrow> go_value
                      \<Rightarrow> string list \<times> (failure + go_value)" where
  "run_binders info t req [] inputValue = ([], Inr inputValue)"
| "run_binders info t req (inputField # rest) inputValue =
     (case FieldByName t (if_Name inputField) of
        Inl p \<Rightarrow> ([], Inl p)
      | Inr fieldValue \<Rightarrow>
          (case if_Function inputField info fieldValue req inputValue of
             Inl err \<Rightarrow> ([if_Name inputField], Inl err)
           | Inr inputValue' \<Rightarrow>
               (case run_binders info t req rest inputValue' of
                  (names, r) \<Rightarrow> (if_Name inputField # names, r))))"

text \<open>Storing into and reading from a slice at a position; Go panics out of range.\<close>

definition set_index :: "'a list \<Rightarrow> int \<Rightarrow> 'a \<Rightarrow> failure + 'a list" where
  "set_index xs i x =
     (if 0 \<le> i \<and> nat i < length xs then Inr (xs[nat i := x])
      else Inl (Panicked ''index out of range''))"

definition get_index :: "'a list \<Rightarrow> int \<Rightarrow> failure + 'a" where
  "get_index xs i =
     (if 0 \<le> i \<and> nat i < length xs then Inr (xs ! nat i)
      else Inl (Panicked ''index out of range''))"

text \<open>
  The first part of the function \<open>CreateFunctionWithError\<close> returns: the argument list,
  with the metadata record bound from the request.
\<close>

definition bind_arguments :: "RestfulFunctionInfo \<Rightarrow> Request \<Rightarrow> string list \<times> (failure + go_arg list)" where
  "bind_arguments info req =
     (let ins = func_In (FunctionValue info);
          methodArguments0 = replicate (length ins) ZeroArg
      in (case (if InContextPosition info \<ge> 0
                then set_index methodArguments0 (InContextPosition info) ContextArg
                else Inr methodArguments0) of
            Inl p \<Rightarrow> ([], Inl p)
          | Inr methodArguments \<Rightarrow>
              if InMetadataPosition info \<ge> 0 then
                (case get_index ins (InMetadataPosition info) of
                   Inl p \<Rightarrow> ([], Inl p)
                 | Inr t \<Rightarrow>
                     (case (if type_Kind t = K_Pointer then type_Elem t else Some t) of
                        None \<Rightarrow> ([], Inl (Panicked ''reflect: Elem of invalid type''))
                      | Some argumentType \<Rightarrow>
                          if type_Kind argumentType \<noteq> K_Struct
                          then ([], Inl (Failed (errorString (''unexpected input type: ''
                                                   @ Kind_String (type_Kind argumentType)))))
                          else
                            (case run_binders (RestfulFunctionMeta.truncate info) t req
                                    (InputFields info) (Zero t) of
                               (names, Inl err) \<Rightarrow> (names, Inl err)
                             | (names, Inr inputValue) \<Rightarrow>
                                 (names, set_index methodArguments (InMetadataPosition info)
                                           (MetadataArg inputValue)))))
              else ([], Inr methodArguments)))"

text \<open>
  The rest of it: call the handler, check the number of results, return the handler's
  error (through the error handler, when there is one), otherwise write the response.
\<close>

type_synonym ErrorHandler = "(go_error \<Rightarrow> go_error option) option"

definition render_results :: "RestfulFunctionInfo \<Rightarrow> ErrorHandler \<Rightarrow> go_result list \<Rightarrow> Response
                                 \<Rightarrow> Response \<times> failure option" where
  "render_results info errorHandler methodResults resp =
     (if length methodResults \<noteq> length (func_Out (FunctionValue info))
      then (resp, Some (Failed (errorString ''unexpected output count'')))
      else
        (case (if OutErrorPosition info \<ge> 0
               then (case get_index methodResults (OutErrorPosition info) of
                       Inl p \<Rightarrow> Inl p
                     | Inr NilResult \<Rightarrow> Inr None
                     | Inr (ErrorResult e) \<Rightarrow> Inr (Some e)
                     | Inr r \<Rightarrow> Inl (Panicked ''interface conversion: value is not error''))
               else Inr None) of
           Inl p \<Rightarrow> (resp, Some p)
         | Inr (Some err) \<Rightarrow>
             (resp, Some (Failed (case errorHandler of
                                    None \<Rightarrow> err
                                  | Some h \<Rightarrow> (case h err of None \<Rightarrow> err | Some newErr \<Rightarrow> newErr))))
         | Inr None \<Rightarrow>
             if OutResponsePosition info \<ge> 0 then
               (case get_index methodResults (OutResponsePosition info) of
                  Inl p \<Rightarrow> (resp, Some p)
                | Inr NilResult \<Rightarrow> (resp @ [WriteHeaderAndEntity StatusOK NilEntity], None)
                | Inr (WriterResult ops) \<Rightarrow> (resp @ ops, None)
                | Inr (PlainResult output) \<Rightarrow> (resp @ [WriteHeaderAndEntity StatusOK (ValueEntity output)], None)
                | Inr (ErrorResult e) \<Rightarrow>
                    (resp @ [WriteHeaderAndEntity StatusOK (ValueEntity (VOther (TypeName e)))], None))
             else (resp @ [WriteHeaderAndEntity StatusOK NilEntity], None)))"

definition CreateFunctionWithError :: "RestfulFunctionInfo \<Rightarrow> ErrorHandler \<Rightarrow> Request \<Rightarrow> Response \<Rightarrow> Outcome" where
  "CreateFunctionWithError info errorHandler req resp =
     (case bind_arguments info req of
        (names, Inl err) \<Rightarrow> \<lparr>bound = names, called = [], response = resp, failed = Some err\<rparr>
      | (names, Inr methodArguments) \<Rightarrow>
          (case render_results info errorHandler
                  (func_Call (FunctionValue info) methodArguments) resp of
             (resp', err) \<Rightarrow>
               \<lparr>bound = names, called = [methodArguments], response = resp', failed = err\<rparr>))"

text \<open>
  \<open>restfulFunctionWrapper\<close>: an error that has an \<open>ErrorWriter\<close> in its tree is written by
  it, any other as a generic internal error.
\<close>

definition render_error :: "strconv \<Rightarrow> go_error \<Rightarrow> resp_op list" where
  "render_error sc err =
     (case As_ErrorWriter err of
        Some errorWriter \<Rightarrow> (case WriteError sc errorWriter of Some ops \<Rightarrow> ops | None \<Rightarrow> [])
      | None \<Rightarrow>
          [WriteHeaderAndEntity StatusInternalServerError
             (APIResponseErrorOutput (TypeName err) (Error sc err))])"

definition restfulFunctionWrapper :: "strconv \<Rightarrow> (Request \<Rightarrow> Response \<Rightarrow> Outcome) \<Rightarrow> Request \<Rightarrow> Response \<Rightarrow> Outcome" where
  "restfulFunctionWrapper sc f req resp =
     (let out = f req resp
      in (case failed out of
            Some (Failed err) \<Rightarrow> out\<lparr>response := response out @ render_error sc err, failed := None\<rparr>
          | _ \<Rightarrow> out))"

section \<open>Notions the statements use\<close>






text \<open>The first element that satisfies a predicate, counting from \<open>i\<close>; \<open>-1\<close> when none does.\<close>

fun first_from :: "int \<Rightarrow> ('a \<Rightarrow> bool) \<Rightarrow> 'a list \<Rightarrow> int" where
  "first_from i P [] = - 1"
| "first_from i P (x # xs) = (if P x then i else first_from (i + 1) P xs)"



text \<open>
  The outcome of walking the fields of a record without the name of the top-level field
  in the error: on failure, the error \<open>handleField\<close> returned.
\<close>

fun unnamed :: "failure + 'a \<Rightarrow> failure + 'a" where
  "unnamed (Inl (Failed (wrapError m err))) = Inl (Failed err)"
| "unnamed r = r"



section \<open>Example functions, records and requests\<close>

text \<open>
  A \<open>strconv\<close> for the examples, none of which parses a float or prints a rune above
  U+00FF: its \<open>ParseFloat\<close> rejects every text and its tables are empty.
\<close>

definition example_strconv :: strconv where
  "example_strconv =
     \<lparr>ParseFloat = (\<lambda>s bitSize. Inl (NumError ''ParseFloat'' s ErrSyntax)), isPrint_tables = (\<lambda>r. False)\<rparr>"

definition context_type :: go_type where
  "context_type = GoType K_Interface ''context.Context'' True False None [] None"

definition error_type :: go_type where
  "error_type = GoType K_Interface ''error'' False True None [] None"

definition int_slice_type :: go_type where
  "int_slice_type = GoType K_Slice ''[]int'' False False (Some (basic_type K_Int)) [] None"

text \<open>A struct type of given fields, an exported field with an \<open>api\<close> tag, an embedded field.\<close>

definition struct_type :: "string \<Rightarrow> StructField list \<Rightarrow> go_type" where
  "struct_type name fs = GoType K_Struct name False False None fs None"

definition api_field :: "string \<Rightarrow> go_type \<Rightarrow> string \<Rightarrow> StructField" where
  "api_field name t directive = StructField name [] False t [(''api'', directive)]"

definition embedded :: "string \<Rightarrow> go_type \<Rightarrow> StructField" where
  "embedded name t = StructField name [] True t []"

text \<open>
  The marker types of the package, to be embedded in a metadata record: one unexported
  blank field with the \<open>httpmethod\<close> directive.
\<close>

definition HTTPMethod_marker :: "string \<Rightarrow> go_type" where
  "HTTPMethod_marker verb =
     struct_type (''restfulwrapper.HTTPMethod'' @ verb)
       [StructField ''_'' ''github.com/threatmate/restfulwrapper'' False (basic_type K_String)
          [(''api'', ''httpmethod:'' @ verb)]]"

definition HTTPMethodDELETE :: go_type where "HTTPMethodDELETE = HTTPMethod_marker ''DELETE''"
definition HTTPMethodGET :: go_type where "HTTPMethodGET = HTTPMethod_marker ''GET''"
definition HTTPMethodOPTIONS :: go_type where "HTTPMethodOPTIONS = HTTPMethod_marker ''OPTIONS''"
definition HTTPMethodPATCH :: go_type where "HTTPMethodPATCH = HTTPMethod_marker ''PATCH''"
definition HTTPMethodPOST :: go_type where "HTTPMethodPOST = HTTPMethod_marker ''POST''"
definition HTTPMethodPUT :: go_type where "HTTPMethodPUT = HTTPMethod_marker ''PUT''"

text \<open>A request with given path and query parameters, no header and an empty body.\<close>

definition example_request :: "(string \<times> string) list \<Rightarrow> (string \<times> string list) list \<Rightarrow> Request" where
  "example_request path query =
     \<lparr>req_Method = ''GET'', req_URLPath = ''/'',
      req_PathParameter = (\<lambda>name. case map_of path name of Some v \<Rightarrow> v | None \<Rightarrow> []),
      req_QueryParameters = (\<lambda>name. case map_of query name of Some vs \<Rightarrow> vs | None \<Rightarrow> []),
      req_HeaderParameter = (\<lambda>name. []),
      req_ParseForm = Inr (VOther ''url.Values''), req_ReadForm = Inr (VOther ''multipart.Form''),
      req_ReadAll = Inr [], req_ReadEntity = (\<lambda>t. Inl (errorString ''EOF''))\<rparr>"

text \<open>\<open>func(string) {}\<close>, the function of the test "Incorrect metadata".\<close>

definition func_string :: go_func where
  "func_string = GoFunc [basic_type K_String] [] (\<lambda>args. [])"

text \<open>\<open>func(context.Context, context.Context) {}\<close>, of the test "Too many contexts".\<close>

definition func_two_contexts :: go_func where
  "func_two_contexts = GoFunc [context_type, context_type] [] (\<lambda>args. [])"

text \<open>
  \<open>func(context.Context, struct{}) (string, error)\<close>, of the test "With context and metadata
  returns response and error".
\<close>

definition func_full :: go_func where
  "func_full =
     GoFunc [context_type, struct_type ''struct {}'' []] [basic_type K_String, error_type]
       (\<lambda>args. [PlainResult (VString []), NilResult])"

text \<open>
  A handler \<open>func(context.Context, M) (string, error)\<close> that returns \<open>"ok"\<close>, for a metadata
  record \<open>M\<close>.
\<close>

definition handler_of :: "go_type \<Rightarrow> go_func" where
  "handler_of M =
     GoFunc [context_type, M] [basic_type K_String, error_type]
       (\<lambda>args. [PlainResult (VString ''ok''), NilResult])"

text \<open>
  \<open>struct { Q int `api:"query:q"`; ID int `api:"path:id"` }\<close>.
\<close>

definition q_id_metadata :: go_type where
  "q_id_metadata =
     struct_type ''QIDMetadata''
       [api_field ''Q'' (basic_type K_Int) ''query:q'', api_field ''ID'' (basic_type K_Int) ''path:id'']"

text \<open>
  \<open>struct { HTTPMethodGET; ID int `api:"path:id"` }\<close>, and the same record with the field
  of \<open>HTTPMethodGET\<close> declared in place of the embedded field.
\<close>

definition get_id_fields :: "StructField list" where
  "get_id_fields = [embedded ''HTTPMethodGET'' HTTPMethodGET, api_field ''ID'' (basic_type K_Int) ''path:id'']"

definition get_id_fields_flat :: "StructField list" where
  "get_id_fields_flat = type_Fields HTTPMethodGET @ [api_field ''ID'' (basic_type K_Int) ''path:id'']"

text \<open>
  The fields \<open>Value1 string `api:"query:key1,oldKey" default:"fallback"`\<close>,
  \<open>Value1 string `api:"query:key1"`\<close> and \<open>Values []int `api:"query:key1,oldKey"`\<close>.
\<close>

definition value1_default_field :: StructField where
  "value1_default_field =
     StructField ''Value1'' [] False (basic_type K_String)
       [(''api'', ''query:key1,oldKey''), (''default'', ''fallback'')]"

definition value1_field :: StructField where
  "value1_field = api_field ''Value1'' (basic_type K_String) ''query:key1''"

definition values_field :: StructField where
  "values_field = api_field ''Values'' int_slice_type ''query:key1,oldKey''"

text \<open>\<open>struct { V string `api:"query:a,a"` }\<close>.\<close>

definition alias_twice_metadata :: go_type where
  "alias_twice_metadata = struct_type ''AliasTwice'' [api_field ''V'' (basic_type K_String) ''query:a,a'']"

text \<open>
  Two handlers \<open>func() (Redirect, error)\<close> whose value writes a redirect: one returns no
  error, the other returns the error \<open>boom\<close> as well.
\<close>

definition redirect :: "resp_op list" where
  "redirect = [SetHeader ''Location'' ''/elsewhere'', WriteHeader 302]"

definition func_redirect :: go_func where
  "func_redirect =
     GoFunc [] [struct_type ''Redirect'' [], error_type] (\<lambda>args. [WriterResult redirect, NilResult])"

definition func_redirect_error :: go_func where
  "func_redirect_error =
     GoFunc [] [struct_type ''Redirect'' [], error_type]
       (\<lambda>args. [WriterResult redirect, ErrorResult (errorString ''boom'')])"

text \<open>
  \<open>struct { X int `api:"bogus:x"` }\<close>, whose directive is not registered; the field
  \<open>value1 string `api:"query:key1,oldKey"`\<close>, unexported, of a package \<open>main\<close>; the
  record \<open>struct { id int `api:"path:id"` }\<close> with its field unexported, the record
  \<open>struct { ID int `api:"path:id"` }\<close> and the type of a pointer to a record.
\<close>

definition unknown_tag_metadata :: go_type where
  "unknown_tag_metadata = struct_type ''UnknownTag'' [api_field ''X'' (basic_type K_Int) ''bogus:x'']"

definition value1_unexported_field :: StructField where
  "value1_unexported_field =
     StructField ''value1'' ''main'' False (basic_type K_String) [(''api'', ''query:key1,oldKey'')]"

definition id_unexported_metadata :: go_type where
  "id_unexported_metadata =
     struct_type ''IDUnexported'' [StructField ''id'' ''main'' False (basic_type K_Int) [(''api'', ''path:id'')]]"

definition id_metadata :: go_type where
  "id_metadata = struct_type ''IDMetadata'' [api_field ''ID'' (basic_type K_Int) ''path:id'']"

definition pointer_type :: "go_type \<Rightarrow> go_type" where
  "pointer_type t = GoType K_Pointer (''*'' @ type_String t) False False (Some t) [] None"

text \<open>\<open>struct { V string `api:"query:a"`; W string `api:"query:b,a"` }\<close>.\<close>

definition alias_across_metadata :: go_type where
  "alias_across_metadata =
     struct_type ''AliasAcross''
       [api_field ''V'' (basic_type K_String) ''query:a'', api_field ''W'' (basic_type K_String) ''query:b,a'']"

section \<open>Evaluating strings\<close>

text \<open>The definitions to unfold to trim or quote a given string.\<close>

lemmas trim_defs = TrimSpace_def TrimLeftFunc.simps TrimRightFunc.simps bytes_def DecodeLastRune_def IsSpace_def
  continuation_def RuneStart_def RuneError_def Let_def

lemmas quote_defs = Quote_def appendQuoted.simps appendEscapedRune_def IsPrint_def lowerhex_def ValidRune_def
  bytes_def continuation_def RuneError_def Let_def

section \<open>Registering directives\<close>

text \<open>
  C9.  Whatever the map holds, once \<open>Register\<close> has been called with a key, calling it
  again with that key panics and leaves the map as it was; and two calls with distinct keys
  that the map does not hold yet both return, after which each key maps to its own
  function.
\<close>

theorem Register_twice_or_distinct:
  "(let (r1, m1) = Register k g m; (r2, m2) = Register k f m1
    in r2 = Some (Panicked (''tag already registered: '' @ k)) \<and> m2 = m1)
   \<and> (k1 \<noteq> k2 \<and> k1 \<notin> dom m \<and> k2 \<notin> dom m \<longrightarrow>
      (let (r1, m1) = Register k1 f m; (r2, m2) = Register k2 g m1
       in r1 = None \<and> r2 = None \<and> m2 k1 = Some f \<and> m2 k2 = Some g \<and> dom m2 = dom m \<union> {k1, k2}))"
  by (auto simp: Register_def)

theorem Register_twice_or_distinct_witness:
  "(let (r1, m1) = Register ''path'' None Map.empty;
        (r2, m2) = Register ''path'' (Some (\<lambda>v fld info. Inr (None, info))) m1
    in r2 = Some (Panicked ''tag already registered: path'') \<and> m2 = m1)
   \<and> (let (r1, m1) = Register ''path'' (Some (\<lambda>v fld info. Inr (None, info))) Map.empty;
          (r2, m2) = Register ''query'' None m1
       in r1 = None \<and> r2 = None \<and> m2 ''path'' = Some (Some (\<lambda>v fld info. Inr (None, info)))
          \<and> m2 ''query'' = Some None \<and> dom m2 = {''path'', ''query''})"
  using Register_twice_or_distinct
    [of "''path''" None Map.empty "Some (\<lambda>v fld info. Inr (None, info))" "''path''" "''query''"]
  by simp

section \<open>Decimal numerals and strconv\<close>

lemma foldl_step_mono: "n \<le> foldl decimal_step n cs"
proof (induction cs arbitrary: n)
  case Nil show ?case by simp
next
  case (Cons c cs)
  have "n \<le> n * 10 + digit_val c" by simp
  also have "\<dots> \<le> foldl decimal_step (n * 10 + digit_val c) cs" by (rule Cons.IH)
  finally show ?case by simp
qed

lemma digit_val_lt: "is_digit c \<Longrightarrow> digit_val c < 10"
  by (auto simp: is_digit_def digit_val_def)

lemma cutoff_val: "maxUint64 div 10 = 1844674407370955161"
  by (simp add: maxUint64_def)

lemma loop_step_ok:
  assumes "is_digit c" "n * 10 + digit_val c \<le> maxVal" "maxVal \<le> maxUint64"
  shows "ParseUint_loop maxVal (c # cs) n = ParseUint_loop maxVal cs (n * 10 + digit_val c)"
proof -
  have lt: "n * 10 + digit_val c < 2 ^ 64" using assms by (simp add: maxUint64_def)
  then have a: "n * 10 < 2 ^ 64" by simp
  have "n < 1844674407370955162" using a by simp
  then have b: "\<not> n \<ge> maxUint64 div 10 + 1" by (simp add: cutoff_val)
  show ?thesis using assms a lt b by (simp add: Let_def)
qed

lemma loop_step_range:
  assumes "is_digit c" "n * 10 + digit_val c > maxVal" "maxVal \<le> maxUint64" "n \<le> maxVal"
  shows "ParseUint_loop maxVal (c # cs) n = (maxVal, Some ErrRange)"
proof (cases "n \<ge> maxUint64 div 10 + 1")
  case True then show ?thesis using assms by simp
next
  case False
  then have "n < 1844674407370955162" by (simp add: cutoff_val)
  then have a: "n * 10 < 2 ^ 64" by simp
  have d: "digit_val c < 10" using assms digit_val_lt by simp
  show ?thesis
  proof (cases "n * 10 + digit_val c < 2 ^ 64")
    case True
    then show ?thesis using assms a False by (simp add: Let_def)
  next
    case False2: False
    have "n * 10 + digit_val c < 2 * 2 ^ 64" using a d by simp
    then have m: "(n * 10 + digit_val c) mod 2 ^ 64 = n * 10 + digit_val c - 2 ^ 64"
      using False2 by (simp add: mod_if)
    have "n * 10 + digit_val c - 2 ^ 64 < n * 10" using d a False2 by simp
    then show ?thesis using assms a False m by (simp add: Let_def)
  qed
qed

lemma loop_ok:
  "n \<le> maxVal \<Longrightarrow> maxVal \<le> maxUint64 \<Longrightarrow> list_all is_digit cs \<Longrightarrow> foldl decimal_step n cs \<le> maxVal
   \<Longrightarrow> ParseUint_loop maxVal cs n = (foldl decimal_step n cs, None)"
proof (induction cs arbitrary: n)
  case Nil then show ?case by simp
next
  case (Cons c cs)
  have le: "n * 10 + digit_val c \<le> maxVal"
    using foldl_step_mono [of "n * 10 + digit_val c" cs] Cons.prems(4) by simp
  have "ParseUint_loop maxVal (c # cs) n = ParseUint_loop maxVal cs (n * 10 + digit_val c)"
    using Cons.prems le by (intro loop_step_ok) auto
  also have "\<dots> = (foldl decimal_step (n * 10 + digit_val c) cs, None)"
    using Cons.prems le by (intro Cons.IH) auto
  finally show ?case by simp
qed

lemma loop_syntax:
  "n \<le> maxVal \<Longrightarrow> maxVal \<le> maxUint64 \<Longrightarrow> \<not> list_all is_digit cs
   \<Longrightarrow> snd (ParseUint_loop maxVal cs n) \<noteq> None"
proof (induction cs arbitrary: n)
  case Nil then show ?case by simp
next
  case (Cons c cs)
  show ?case
  proof (cases "is_digit c")
    case False then show ?thesis by simp
  next
    case True
    show ?thesis
    proof (cases "n * 10 + digit_val c \<le> maxVal")
      case le: True
      have "ParseUint_loop maxVal (c # cs) n = ParseUint_loop maxVal cs (n * 10 + digit_val c)"
        using Cons.prems le True by (intro loop_step_ok) auto
      moreover have "snd (ParseUint_loop maxVal cs (n * 10 + digit_val c)) \<noteq> None"
        using Cons.prems le True by (intro Cons.IH) auto
      ultimately show ?thesis by simp
    next
      case False
      then have "ParseUint_loop maxVal (c # cs) n = (maxVal, Some ErrRange)"
        using Cons.prems True by (intro loop_step_range) auto
      then show ?thesis by simp
    qed
  qed
qed

lemma loop_range:
  "n \<le> maxVal \<Longrightarrow> maxVal \<le> maxUint64 \<Longrightarrow> list_all is_digit cs \<Longrightarrow> foldl decimal_step n cs > maxVal
   \<Longrightarrow> ParseUint_loop maxVal cs n = (maxVal, Some ErrRange)"
proof (induction cs arbitrary: n)
  case Nil then show ?case by simp
next
  case (Cons c cs)
  show ?case
  proof (cases "n * 10 + digit_val c \<le> maxVal")
    case le: True
    have "ParseUint_loop maxVal (c # cs) n = ParseUint_loop maxVal cs (n * 10 + digit_val c)"
      using Cons.prems le by (intro loop_step_ok) auto
    also have "\<dots> = (maxVal, Some ErrRange)"
      using Cons.prems le by (intro Cons.IH) auto
    finally show ?thesis .
  next
    case False
    then show ?thesis using Cons.prems by (intro loop_step_range) auto
  qed
qed

lemma digit_char_props: "d < 10 \<Longrightarrow> is_digit (digit_char d) \<and> digit_val (digit_char d) = d"
proof -
  assume "d < 10"
  then consider "d = 0" | "d = 1" | "d = 2" | "d = 3" | "d = 4" | "d = 5" | "d = 6" | "d = 7" | "d = 8" | "d = 9"
    by atomize_elim arith
  then show ?thesis
    by cases (simp_all add: digit_char_def is_digit_def digit_val_def)
qed

lemma FormatUint_digits: "list_all is_digit (FormatUint n) \<and> FormatUint n \<noteq> []"
proof (induction n rule: FormatUint.induct)
  case (1 n)
  show ?case
  proof (cases "n < 10")
    case True
    then show ?thesis using digit_char_props [of n] by (subst FormatUint.simps, subst (2) FormatUint.simps) simp
  next
    case False
    then show ?thesis using 1 digit_char_props [of "n mod 10"]
      by (subst FormatUint.simps, subst (2) FormatUint.simps) simp
  qed
qed

lemma FormatUint_value: "foldl decimal_step 0 (FormatUint n) = n"
proof (induction n rule: FormatUint.induct)
  case (1 n)
  show ?case
  proof (cases "n < 10")
    case True
    then show ?thesis using digit_char_props [of n] by (subst FormatUint.simps) simp
  next
    case False
    then show ?thesis using 1 digit_char_props [of "n mod 10"]
      by (subst FormatUint.simps) simp
  qed
qed

lemma wrap_minus_one:
  assumes "1 \<le> x" "x \<le> (M::nat)"
  shows "(x mod M + (M - 1)) mod M = x - 1"
proof (cases "x = M")
  case True
  then show ?thesis using assms by simp
next
  case False
  then have lt: "x < M" using assms by simp
  have "x mod M + (M - 1) = (x - 1) + M" using lt assms by simp
  moreover have "x - 1 < M" using lt by simp
  ultimately show ?thesis by simp
qed

lemma maxVal_eq:
  assumes "1 \<le> b" "b \<le> 64"
  shows "(2 ^ b mod 2 ^ 64 + (2 ^ 64 - 1)) mod 2 ^ 64 = (2 ^ b - 1 :: nat)"
proof -
  have "(2::nat) ^ b \<le> 2 ^ 64" using assms by (intro power_increasing) auto
  moreover have "(1::nat) \<le> 2 ^ b" by simp
  ultimately show ?thesis by (rule wrap_minus_one [rotated])
qed

lemma maxVal_le: "b \<le> 64 \<Longrightarrow> (2 ^ b - 1 :: nat) \<le> maxUint64"
proof -
  assume "b \<le> 64"
  then have "(2::nat) ^ b \<le> 2 ^ 64" by (rule power_increasing) simp
  then show ?thesis by (simp add: maxUint64_def)
qed

lemma ParseUint_Err_ok:
  assumes "1 \<le> b" "b \<le> 64" "unsigned_numeral s" "decimal_value s \<le> 2 ^ b - 1"
  shows "ParseUint_Err s b = (decimal_value s, None)"
proof -
  have "ParseUint_loop (2 ^ b - 1) s 0 = (foldl decimal_step 0 s, None)"
    using assms maxVal_le [of b] by (intro loop_ok) (auto simp: unsigned_numeral_def decimal_value_def)
  then show ?thesis
    using assms maxVal_eq [of b] by (simp add: ParseUint_Err_def unsigned_numeral_def decimal_value_def)
qed

lemma ParseUint_Err_syntax:
  assumes "1 \<le> b" "b \<le> 64" "\<not> unsigned_numeral s"
  shows "snd (ParseUint_Err s b) \<noteq> None"
proof (cases "s = []")
  case True then show ?thesis by (simp add: ParseUint_Err_def)
next
  case False
  then have "\<not> list_all is_digit s" using assms by (simp add: unsigned_numeral_def)
  then have "snd (ParseUint_loop (2 ^ b - 1) s 0) \<noteq> None"
    using assms maxVal_le [of b] by (intro loop_syntax) auto
  then show ?thesis
    using assms False maxVal_eq [of b] by (simp add: ParseUint_Err_def)
qed

lemma ParseUint_Err_range:
  assumes "1 \<le> b" "b \<le> 64" "unsigned_numeral s" "decimal_value s > 2 ^ b - 1"
  shows "ParseUint_Err s b = (2 ^ b - 1, Some ErrRange)"
proof -
  have "ParseUint_loop (2 ^ b - 1) s 0 = (2 ^ b - 1, Some ErrRange)"
    using assms maxVal_le [of b] by (intro loop_range) (auto simp: unsigned_numeral_def decimal_value_def)
  then show ?thesis
    using assms maxVal_eq [of b] by (simp add: ParseUint_Err_def unsigned_numeral_def)
qed

lemma ParseUint_Err_fail_value:
  assumes "1 \<le> b" "b \<le> 64" "ParseUint_Err s b = (un, Some ErrRange)"
  shows "un = 2 ^ b - 1"
proof -
  have "ParseUint_loop (2 ^ b - 1) s 0 = (un, Some ErrRange)"
    using assms maxVal_eq [of b] by (auto simp: ParseUint_Err_def split: if_splits)
  moreover have "ParseUint_loop m cs n = (u, Some ErrRange) \<Longrightarrow> u = m" for m cs n u
    by (induction m cs n rule: ParseUint_loop.induct) (auto simp: Let_def split: if_splits)
  ultimately show ?thesis by blast
qed

lemma int64_small: "u < 2 ^ 63 \<Longrightarrow> int64 u = int u"
  by (simp add: int64_def)

lemma int64_min: "neg64 (int64 (2 ^ 63)) = - int (2 ^ 63)"
  by (simp add: int64_def neg64_def)

lemma neg64_small: "u < 2 ^ 63 \<Longrightarrow> neg64 (int64 u) = - int u"
  by (simp add: int64_def neg64_def)

lemma neg64_int64: "u \<le> 2 ^ 63 \<Longrightarrow> neg64 (int64 u) = - int u"
  using int64_min neg64_small [of u] by (cases "u = 2 ^ 63") auto

lemma half_le: assumes "1 \<le> b" "b \<le> 64"
  shows "(2::nat) ^ (b - 1) \<le> 2 ^ 63" and "(2::nat) ^ (b - 1) \<le> 2 ^ b - 1"
proof -
  show "(2::nat) ^ (b - 1) \<le> 2 ^ 63" using assms by (intro power_increasing) auto
  have "(2::nat) ^ b = 2 * 2 ^ (b - 1)" using assms by (cases b) auto
  moreover have "(1::nat) \<le> 2 ^ (b - 1)" by simp
  ultimately show "(2::nat) ^ (b - 1) \<le> 2 ^ b - 1" by linarith
qed

lemma ParseInt_unfold:
  "s \<noteq> [] \<Longrightarrow> 1 \<le> b \<Longrightarrow> ParseInt s b =
     (case ParseUint_Err (unsign s) b of
        (un, err) \<Rightarrow>
          if err \<noteq> None \<and> err \<noteq> Some ErrRange
          then (0, Some (NumError ''ParseInt'' s (case err of Some k \<Rightarrow> k | None \<Rightarrow> ErrSyntax)))
          else if hd s \<noteq> CHR ''-'' \<and> un \<ge> 2 ^ (b - 1)
               then (int (2 ^ (b - 1)) - 1, Some (NumError ''ParseInt'' s ErrRange))
               else if hd s = CHR ''-'' \<and> un > 2 ^ (b - 1)
               then (- int (2 ^ (b - 1)), Some (NumError ''ParseInt'' s ErrRange))
               else (if hd s = CHR ''-'' then neg64 (int64 un) else int64 un, None))"
  by (simp add: ParseInt_def unsign_def Let_def split: prod.splits)

lemma ParseInt_ok:
  assumes b: "1 \<le> b" "b \<le> 64" and num: "signed_numeral s"
    and lo: "- (2 ^ (b - 1)) \<le> signed_value s" and hi: "signed_value s < 2 ^ (b - 1)"
  shows "ParseInt s b = (signed_value s, None)"
proof -
  let ?u = "decimal_value (unsign s)"
  let ?c = "2 ^ (b - 1) :: nat"
  have ci: "(2::int) ^ (b - 1) = int ?c" by simp
  have ne: "s \<noteq> []" and un: "unsigned_numeral (unsign s)"
    using num by (auto simp: signed_numeral_def unsign_def)
  have sv: "signed_value s = (if hd s = CHR ''-'' then - int ?u else int ?u)"
    by (simp add: signed_value_def)
  have lo': "- int ?c \<le> signed_value s" and hi': "signed_value s < int ?c"
    using lo hi unfolding ci by auto
  have ule: "?u \<le> ?c"
  proof (cases "hd s = CHR ''-''")
    case True
    then have "signed_value s = - int ?u" using sv by simp
    then show ?thesis using lo' by linarith
  next
    case False
    then have "signed_value s = int ?u" using sv by simp
    then show ?thesis using hi' by linarith
  qed
  have ult: "?u < ?c" if "hd s \<noteq> CHR ''-''"
  proof -
    have "signed_value s = int ?u" using sv that by simp
    then show ?thesis using hi' by linarith
  qed
  have "?u \<le> 2 ^ b - 1" using ule half_le(2) [OF b] by linarith
  then have pu: "ParseUint_Err (unsign s) b = (?u, None)"
    using b un by (intro ParseUint_Err_ok) auto
  have u63: "?u \<le> 2 ^ 63" using ule half_le(1) [OF b] by linarith
  show ?thesis
  proof (cases "hd s = CHR ''-''")
    case True
    then show ?thesis
      using ne b pu ule sv neg64_int64 [OF u63] by (simp add: ParseInt_unfold)
  next
    case False
    have "?u < 2 ^ 63" using ult [OF False] half_le(1) [OF b] by linarith
    then show ?thesis
      using ne b pu ult [OF False] sv False int64_small [of ?u] by (simp add: ParseInt_unfold)
  qed
qed

lemma ParseInt_fail:
  assumes b: "2 \<le> b" "b \<le> 64"
    and bad: "\<not> (signed_numeral s \<and> - (2 ^ (b - 1)) \<le> signed_value s \<and> signed_value s < 2 ^ (b - 1))"
  shows "snd (ParseInt s b) \<noteq> None"
proof (cases "s = []")
  case True then show ?thesis by (simp add: ParseInt_def)
next
  case ne: False
  let ?u = "decimal_value (unsign s)"
  let ?c = "2 ^ (b - 1) :: nat"
  have ci: "(2::int) ^ (b - 1) = int ?c" by simp
  have b1: "1 \<le> b" using b by simp
  have two: "(2::nat) ^ b = 2 * ?c" using b1 by (cases b) auto
  have big: "?c \<ge> 2" using b by (cases b; cases "b - 1") auto
  have sv: "signed_value s = (if hd s = CHR ''-'' then - int ?u else int ?u)"
    by (simp add: signed_value_def)
  obtain un err where pu: "ParseUint_Err (unsign s) b = (un, err)" by (cases "ParseUint_Err (unsign s) b")
  show ?thesis
  proof (cases "unsigned_numeral (unsign s)")
    case False
    then have e: "err \<noteq> None" using ParseUint_Err_syntax [OF b1 b(2) False] pu by simp
    show ?thesis
    proof (cases "err = Some ErrRange")
      case True
      then have "un = 2 ^ b - 1" using ParseUint_Err_fail_value [OF b1 b(2)] pu by simp
      then have "un > ?c" using two big by linarith
      then show ?thesis using ne b1 pu True by (simp add: ParseInt_unfold)
    next
      case False
      then show ?thesis using ne b1 pu e by (simp add: ParseInt_unfold)
    qed
  next
    case un: True
    then have sn: "signed_numeral s" using ne by (simp add: signed_numeral_def unsign_def)
    show ?thesis
    proof (cases "?u \<le> 2 ^ b - 1")
      case True
      then have pu': "ParseUint_Err (unsign s) b = (?u, None)"
        using b1 b un by (intro ParseUint_Err_ok) auto
      have r: "\<not> (- int ?c \<le> signed_value s \<and> signed_value s < int ?c)"
        using bad sn unfolding ci by simp
      have "(hd s \<noteq> CHR ''-'' \<and> ?u \<ge> ?c) \<or> (hd s = CHR ''-'' \<and> ?u > ?c)"
      proof (cases "hd s = CHR ''-''")
        case True
        then have "signed_value s = - int ?u" using sv by simp
        then have "?u > ?c" using r big by linarith
        then show ?thesis using True by blast
      next
        case False
        then have "signed_value s = int ?u" using sv by simp
        then have "?u \<ge> ?c" using r big by linarith
        then show ?thesis using False by blast
      qed
      then show ?thesis using ne b1 pu' by (auto simp: ParseInt_unfold)
    next
      case False
      then have "ParseUint_Err (unsign s) b = (2 ^ b - 1, Some ErrRange)"
        using b1 b un by (intro ParseUint_Err_range) auto
      moreover have "(2::nat) ^ b - 1 > ?c" using two big by linarith
      ultimately show ?thesis using ne b1 by (simp add: ParseInt_unfold)
    qed
  qed
qed


section \<open>Canonical text parses back\<close>

lemma digit_not_sign: "is_digit c \<Longrightarrow> c \<noteq> CHR ''+'' \<and> c \<noteq> CHR ''-''"
  by (auto simp: is_digit_def)

lemma unsign_FormatUint: "unsign (FormatUint n) = FormatUint n"
proof -
  have "list_all is_digit (FormatUint n)" and "FormatUint n \<noteq> []"
    using FormatUint_digits [of n] by auto
  then have "is_digit (hd (FormatUint n))" by (cases "FormatUint n") auto
  then show ?thesis using digit_not_sign unfolding unsign_def by auto
qed

lemma FormatUint_numeral: "unsigned_numeral (FormatUint n)" "decimal_value (FormatUint n) = n"
  using FormatUint_digits [of n] FormatUint_value [of n]
  by (auto simp: unsigned_numeral_def decimal_value_def)

lemma FormatInt_numeral: "signed_numeral (FormatInt i)" "signed_value (FormatInt i) = i"
proof -
  show "signed_numeral (FormatInt i)"
  proof (cases "i < 0")
    case True
    then show ?thesis using FormatUint_numeral(1) [of "nat (- i)"]
      by (simp add: FormatInt_def signed_numeral_def unsign_def)
  next
    case False
    then show ?thesis using FormatUint_numeral(1) [of "nat i"] unsign_FormatUint [of "nat i"] FormatUint_digits [of "nat i"]
      by (simp add: FormatInt_def signed_numeral_def)
  qed
  show "signed_value (FormatInt i) = i"
  proof (cases "i < 0")
    case True
    then show ?thesis using FormatUint_numeral(2) [of "nat (- i)"]
      by (simp add: FormatInt_def signed_value_def unsign_def)
  next
    case False
    have "is_digit (hd (FormatUint (nat i)))"
      using FormatUint_digits [of "nat i"] by (cases "FormatUint (nat i)") auto
    then have "hd (FormatUint (nat i)) \<noteq> CHR ''-''" using digit_not_sign by blast
    then show ?thesis using False FormatUint_numeral(2) [of "nat i"] unsign_FormatUint [of "nat i"]
      by (simp add: FormatInt_def signed_value_def)
  qed
qed

lemma ParseUint_result:
  assumes "1 \<le> b" "b \<le> 64"
  shows "unsigned_numeral s \<and> decimal_value s < 2 ^ b \<Longrightarrow> ParseUint s b = (decimal_value s, None)"
    and "\<not> (unsigned_numeral s \<and> decimal_value s < 2 ^ b) \<Longrightarrow> snd (ParseUint s b) \<noteq> None"
proof -
  show "ParseUint s b = (decimal_value s, None)" if ok: "unsigned_numeral s \<and> decimal_value s < 2 ^ b"
  proof -
    have "decimal_value s \<le> 2 ^ b - 1" using ok by linarith
    then have "ParseUint_Err s b = (decimal_value s, None)"
      using ok assms by (intro ParseUint_Err_ok) auto
    then show ?thesis by (simp add: ParseUint_def)
  qed
  show "snd (ParseUint s b) \<noteq> None" if bad: "\<not> (unsigned_numeral s \<and> decimal_value s < 2 ^ b)"
  proof (cases "unsigned_numeral s")
    case False
    then show ?thesis using ParseUint_Err_syntax [OF assms False]
      by (cases "ParseUint_Err s b") (auto simp: ParseUint_def)
  next
    case True
    moreover have "(1::nat) \<le> 2 ^ b" by simp
    ultimately have "decimal_value s > 2 ^ b - 1" using bad by linarith
    then show ?thesis using ParseUint_Err_range [OF assms True] by (simp add: ParseUint_def)
  qed
qed

lemma ParseInt_result:
  assumes "2 \<le> b" "b \<le> 64"
  shows "signed_numeral s \<and> - (2 ^ (b - 1)) \<le> signed_value s \<and> signed_value s < 2 ^ (b - 1)
           \<Longrightarrow> ParseInt s b = (signed_value s, None)"
    and "\<not> (signed_numeral s \<and> - (2 ^ (b - 1)) \<le> signed_value s \<and> signed_value s < 2 ^ (b - 1))
           \<Longrightarrow> snd (ParseInt s b) \<noteq> None"
  using assms ParseInt_ok [of b s] ParseInt_fail [of b s] by auto

lemma ParseBool_result:
  "ParseBool (FormatBool v) = (v, None)" "\<not> bool_text s \<Longrightarrow> snd (ParseBool s) \<noteq> None"
  by (auto simp: ParseBool_def FormatBool_def bool_text_def)


lemma signed_bits: "signed_kind k \<Longrightarrow> 2 \<le> Kind_Bits k \<and> Kind_Bits k \<le> 64"
  by (auto simp: signed_kind_def)
lemma unsigned_bits: "unsigned_kind k \<Longrightarrow> 1 \<le> Kind_Bits k \<and> Kind_Bits k \<le> 64"
  by (auto simp: unsigned_kind_def)

lemma parse_signed:
  assumes "type_ParseString ty = None" "signed_kind (type_Kind ty)"
  shows "parseStringToSingleValue sc s (PointerTo ty cur) =
           (case ParseInt s (type_Bits ty) of (v, Some err) \<Rightarrow> Inl err | (v, None) \<Rightarrow> Inr (VInt v))"
  using assms by (auto simp: parseStringToSingleValue_def signed_kind_def)

lemma parse_unsigned:
  assumes "type_ParseString ty = None" "unsigned_kind (type_Kind ty)"
  shows "parseStringToSingleValue sc s (PointerTo ty cur) =
           (case ParseUint s (type_Bits ty) of (v, Some err) \<Rightarrow> Inl err | (v, None) \<Rightarrow> Inr (VUint v))"
  using assms by (auto simp: parseStringToSingleValue_def unsigned_kind_def)

lemma parse_float:
  assumes "type_ParseString ty = None" "type_Kind ty \<in> {K_Float32, K_Float64}"
  shows "parseStringToSingleValue sc s (PointerTo ty cur) =
           (case ParseFloat sc s (type_Bits ty) of Inl err \<Rightarrow> Inl err | Inr v \<Rightarrow> Inr (VFloat (type_Bits ty) v))"
  using assms by (auto simp: parseStringToSingleValue_def)

lemma parse_bool:
  assumes "type_ParseString ty = None" "type_Kind ty = K_Bool"
  shows "parseStringToSingleValue sc s (PointerTo ty cur) =
           (case ParseBool s of (v, Some err) \<Rightarrow> Inl err | (v, None) \<Rightarrow> Inr (VBool v))"
  using assms by (auto simp: parseStringToSingleValue_def)

lemma parse_string:
  assumes "type_ParseString ty = None" "type_Kind ty = K_String"
  shows "parseStringToSingleValue sc s (PointerTo ty cur) = Inr (VString s)"
  using assms by (auto simp: parseStringToSingleValue_def)

section \<open>The value parser on the built-in scalar kinds\<close>

text \<open>
  The part of C5 that needs no floating point.  Take a target that points to a variable of
  a built-in scalar type: its kind is one of those below and it brings no \<open>ParseString\<close>
  of its own.  Then \<open>parseStringToSingleValue\<close> stores exactly \<open>v\<close> when given the
  canonical text of a value \<open>v\<close> in the range of the type, and returns an error for every
  text that is malformed or out of range: for \<open>bool\<close> a text \<open>ParseBool\<close> does not
  accept; for a signed or unsigned integer of \<open>b\<close> bits a text that is not a decimal
  numeral or whose value is outside the \<open>b\<close>-bit range.  A string target takes any text as
  it is.  For a float target the outcome is that of \<open>strconv.ParseFloat\<close> at the width of
  the type, whatever that is: the float it returns is stored, its error is returned.
\<close>

theorem parseStringToSingleValue_scalars:
  assumes "type_ParseString ty = None"
  shows
   "(type_Kind ty = K_Bool \<longrightarrow>
       parseStringToSingleValue sc (FormatBool v) (PointerTo ty cur) = Inr (VBool v)
       \<and> (\<not> bool_text s \<longrightarrow> isl (parseStringToSingleValue sc s (PointerTo ty cur))))
    \<and> (signed_kind (type_Kind ty) \<longrightarrow>
       (- (2 ^ (type_Bits ty - 1)) \<le> i \<and> i < 2 ^ (type_Bits ty - 1) \<longrightarrow>
          parseStringToSingleValue sc (FormatInt i) (PointerTo ty cur) = Inr (VInt i))
       \<and> (\<not> (signed_numeral s \<and> - (2 ^ (type_Bits ty - 1)) \<le> signed_value s
                \<and> signed_value s < 2 ^ (type_Bits ty - 1)) \<longrightarrow>
          isl (parseStringToSingleValue sc s (PointerTo ty cur))))
    \<and> (unsigned_kind (type_Kind ty) \<longrightarrow>
       (n < 2 ^ type_Bits ty \<longrightarrow>
          parseStringToSingleValue sc (FormatUint n) (PointerTo ty cur) = Inr (VUint n))
       \<and> (\<not> (unsigned_numeral s \<and> decimal_value s < 2 ^ type_Bits ty) \<longrightarrow>
          isl (parseStringToSingleValue sc s (PointerTo ty cur))))
    \<and> (type_Kind ty = K_String \<longrightarrow>
       parseStringToSingleValue sc s (PointerTo ty cur) = Inr (VString s))
    \<and> (type_Kind ty \<in> {K_Float32, K_Float64} \<longrightarrow>
       (ParseFloat sc s (type_Bits ty) = Inr x \<longrightarrow>
          parseStringToSingleValue sc s (PointerTo ty cur) = Inr (VFloat (type_Bits ty) x))
       \<and> (ParseFloat sc s (type_Bits ty) = Inl e \<longrightarrow>
          parseStringToSingleValue sc s (PointerTo ty cur) = Inl e))"
proof (intro conjI impI)
  assume k: "type_Kind ty = K_Bool"
  show "parseStringToSingleValue sc (FormatBool v) (PointerTo ty cur) = Inr (VBool v)"
    using ParseBool_result(1) [of v] by (simp add: parse_bool [OF assms k])
  show "isl (parseStringToSingleValue sc s (PointerTo ty cur))" if "\<not> bool_text s"
    using ParseBool_result(2) [OF that] by (cases "ParseBool s") (auto simp: parse_bool [OF assms k])
next
  assume k: "signed_kind (type_Kind ty)"
  note b = signed_bits [OF k, folded type_Bits_def]
  show "parseStringToSingleValue sc (FormatInt i) (PointerTo ty cur) = Inr (VInt i)"
    if "- (2 ^ (type_Bits ty - 1)) \<le> i \<and> i < 2 ^ (type_Bits ty - 1)"
    using that b ParseInt_result(1) [of "type_Bits ty" "FormatInt i"] FormatInt_numeral [of i]
    by (simp add: parse_signed [OF assms k])
  show "isl (parseStringToSingleValue sc s (PointerTo ty cur))"
    if "\<not> (signed_numeral s \<and> - (2 ^ (type_Bits ty - 1)) \<le> signed_value s
                \<and> signed_value s < 2 ^ (type_Bits ty - 1))"
    using b ParseInt_result(2) [OF _ _ that]
    by (cases "ParseInt s (type_Bits ty)") (auto simp: parse_signed [OF assms k])
next
  assume k: "unsigned_kind (type_Kind ty)"
  note b = unsigned_bits [OF k, folded type_Bits_def]
  show "parseStringToSingleValue sc (FormatUint n) (PointerTo ty cur) = Inr (VUint n)"
    if "n < 2 ^ type_Bits ty"
    using that b ParseUint_result(1) [of "type_Bits ty" "FormatUint n"] FormatUint_numeral [of n]
    by (simp add: parse_unsigned [OF assms k])
  show "isl (parseStringToSingleValue sc s (PointerTo ty cur))"
    if "\<not> (unsigned_numeral s \<and> decimal_value s < 2 ^ type_Bits ty)"
    using b ParseUint_result(2) [OF _ _ that]
    by (cases "ParseUint s (type_Bits ty)") (auto simp: parse_unsigned [OF assms k])
next
  assume k: "type_Kind ty = K_String"
  show "parseStringToSingleValue sc s (PointerTo ty cur) = Inr (VString s)"
    by (rule parse_string [OF assms k])
next
  assume k: "type_Kind ty \<in> {K_Float32, K_Float64}"
  show "parseStringToSingleValue sc s (PointerTo ty cur) = Inr (VFloat (type_Bits ty) x)"
    if "ParseFloat sc s (type_Bits ty) = Inr x"
    using that by (simp add: parse_float [OF assms k])
  show "parseStringToSingleValue sc s (PointerTo ty cur) = Inl e"
    if "ParseFloat sc s (type_Bits ty) = Inl e"
    using that by (simp add: parse_float [OF assms k])
qed

theorem parseStringToSingleValue_scalars_witness:
  "type_ParseString (basic_type K_Uint8) = None
   \<and> parseStringToSingleValue example_strconv ''123''
         (PointerTo (basic_type K_Uint8) (VUint 0)) = Inr (VUint 123)
   \<and> isl (parseStringToSingleValue example_strconv ''1234''
         (PointerTo (basic_type K_Uint8) (VUint 0)))
   \<and> parseStringToSingleValue example_strconv ''-128''
         (PointerTo (basic_type K_Int8) (VInt 0)) = Inr (VInt (- 128))
   \<and> isl (parseStringToSingleValue example_strconv ''128''
         (PointerTo (basic_type K_Int8) (VInt 0)))
   \<and> parseStringToSingleValue example_strconv ''true''
         (PointerTo (basic_type K_Bool) (VBool False)) = Inr (VBool True)
   \<and> isl (parseStringToSingleValue example_strconv []
         (PointerTo (basic_type K_Bool) (VBool False)))
   \<and> parseStringToSingleValue example_strconv ''hello, world''
         (PointerTo (basic_type K_String) (VString [])) = Inr (VString ''hello, world'')
   \<and> parseStringToSingleValue (example_strconv\<lparr>ParseFloat := \<lambda>s b. if s = ''1.5'' then Inr 0x3FF8000000000000
                                        else Inl (NumError ''ParseFloat'' s ErrSyntax)\<rparr>) ''1.5''
         (PointerTo (basic_type K_Float64) (VFloat 64 0)) = Inr (VFloat 64 0x3FF8000000000000)
   \<and> parseStringToSingleValue (example_strconv\<lparr>ParseFloat := \<lambda>s b. if s = ''1.5'' then Inr 0x3FF8000000000000
                                        else Inl (NumError ''ParseFloat'' s ErrSyntax)\<rparr>) ''x''
         (PointerTo (basic_type K_Float64) (VFloat 64 0)) = Inl (NumError ''ParseFloat'' ''x'' ErrSyntax)"
proof -
  let ?sc = "example_strconv"
  let ?pg = "example_strconv\<lparr>ParseFloat := \<lambda>s b. if s = ''1.5'' then Inr 0x3FF8000000000000
                                        else Inl (NumError ''ParseFloat'' s ErrSyntax)\<rparr>"
  have n: "type_ParseString (basic_type k) = None" for k by (simp add: basic_type_def)
  have k: "type_Kind (basic_type k) = k" for k by (simp add: basic_type_def)
  have u: "FormatUint 123 = ''123''" by (simp add: digit_char_def)
  have i: "FormatInt (- 128) = ''-128''" by (simp add: FormatInt_def digit_char_def)
  have du: "decimal_value ''1234'' = 1234" by (simp add: decimal_value_def digit_val_def)
  have di: "signed_value ''128'' = 128"
    by (simp add: signed_value_def unsign_def decimal_value_def digit_val_def)
  note U = parseStringToSingleValue_scalars
    [OF n, of K_Uint8 ?sc _ "VUint 0" "''1234''" _ 123, unfolded k type_Bits_def]
  note I = parseStringToSingleValue_scalars
    [OF n, of K_Int8 ?sc _ "VInt 0" "''128''" "- 128", unfolded k type_Bits_def]
  note B = parseStringToSingleValue_scalars
    [OF n, of K_Bool ?sc True "VBool False" "[]", unfolded k type_Bits_def]
  note S = parseStringToSingleValue_scalars
    [OF n, of K_String ?sc _ "VString []" "''hello, world''", unfolded k type_Bits_def]
  note F1 = parseStringToSingleValue_scalars
    [OF n, of K_Float64 ?pg _ "VFloat 64 0" "''1.5''" _ _ "0x3FF8000000000000", unfolded k type_Bits_def]
  note F2 = parseStringToSingleValue_scalars
    [OF n, of K_Float64 ?pg _ "VFloat 64 0" "''x''" _ _ _ "NumError ''ParseFloat'' ''x'' ErrSyntax",
     unfolded k type_Bits_def]
  show ?thesis
    using U I B S F1 F2
    by (simp add: n u i du di signed_kind_def unsigned_kind_def bool_text_def FormatBool_def
                  digit_char_def)
qed

section \<open>The slots of a function\<close>


lemma first_from_ge: "0 \<le> i \<Longrightarrow> first_from i P xs = - 1 \<or> i \<le> first_from i P xs"
proof (induction xs arbitrary: i)
  case Nil then show ?case by simp
next
  case (Cons x xs)
  have "0 \<le> i + 1" using Cons.prems by simp
  from Cons.IH [OF this] show ?case by auto
qed


















lemma init_lookup:
  "init sc k =
     (if k = ''body'' then Some (Some (register_body sc))
      else if k = ''doc'' then Some (Some register_doc)
      else if k = ''header'' then Some (Some (register_header sc))
      else if k = ''httpmethod'' then Some (Some register_httpmethod)
      else if k = ''httppath'' then Some (Some register_httppath)
      else if k = ''httprequest'' then Some (Some register_httprequest)
      else if k = ''notes'' then Some (Some register_notes)
      else if k = ''path'' then Some (Some (register_path sc))
      else if k = ''produces'' then Some (Some register_produces)
      else if k = ''query'' then Some (Some (register_query sc))
      else if k = ''restfulrequest'' then Some (Some register_restfulrequest)
      else None)"
  by (simp add: init_def Register_def)







section \<open>Evaluating the examples\<close>

text \<open>The definitions to unfold to evaluate an analysis or a dispatch on the examples.\<close>

lemmas example_defs = example_strconv_def context_type_def error_type_def int_slice_type_def struct_type_def
  api_field_def embedded_def HTTPMethod_marker_def HTTPMethodGET_def example_request_def func_string_def
  func_two_contexts_def func_full_def handler_of_def q_id_metadata_def get_id_fields_def
  get_id_fields_flat_def value1_default_field_def value1_field_def values_field_def
  alias_twice_metadata_def unknown_tag_metadata_def value1_unexported_field_def
  id_unexported_metadata_def id_metadata_def pointer_type_def alias_across_metadata_def redirect_def func_redirect_def func_redirect_error_def basic_type_def

lemmas register_defs = register_body_def register_doc_def register_header_def register_httpmethod_def
  register_httppath_def register_httprequest_def register_notes_def register_path_def
  register_produces_def register_query_def register_restfulrequest_def

lemmas analyse_defs = ParseRestfulFunction_def new_info_def handleField_tag_def Tag_Get_def Tag_Lookup_def
  SplitN2_def trim_defs init_lookup Let_def signed_kind_def unsigned_kind_def

lemmas dispatch_defs = restfulFunctionWrapper_def CreateFunctionWithError_def bind_arguments_def set_index_def get_index_def
  RestfulFunctionMeta.truncate_def FieldByName_def Type_FieldByName_def path_binder_def query_binder_def
  set_if_CanSet_def parseStringToSingleValue_def ParseInt_def ParseUint_Err_def is_digit_def digit_val_def type_Bits_def
  NewAPIPathParameterError_def NewAPIQueryParameterError_def render_error_def render_results_def
  ErrorFromStatus_def StatusBadRequest_def StatusOK_def StatusInternalServerError_def quote_defs int64_def
  Let_def signed_kind_def unsigned_kind_def

lemmas render_defs = NewAPIPathParameterError_def NewAPIQueryParameterError_def render_error_def
  ErrorFromStatus_def StatusBadRequest_def StatusOK_def StatusInternalServerError_def quote_defs

section \<open>Embedded records\<close>

lemma handleField_embedded:
  "field_Anonymous emb \<Longrightarrow> type_Kind (field_Type emb) = K_Struct
   \<Longrightarrow> handleField sc reg info emb = handleField_loop sc reg info (type_Fields (field_Type emb))"
  by (cases emb; cases "field_Type emb") auto

lemma walk_fields_append:
  "walk_fields sc reg info (xs @ ys) =
     (case walk_fields sc reg info xs of Inl e \<Rightarrow> Inl e | Inr info' \<Rightarrow> walk_fields sc reg info' ys)"
  by (induction xs arbitrary: info) (auto split: sum.splits failure.splits)

lemma walk_fields_unnamed: "unnamed (walk_fields sc reg info fs) = handleField_loop sc reg info fs"
  by (induction fs arbitrary: info) (auto split: sum.splits failure.splits)

lemma walk_fields_Failed:
  "walk_fields sc reg info fs = Inl (Failed w) \<Longrightarrow> \<exists>m e. w = wrapError m e"
  by (induction fs arbitrary: info) (auto split: sum.splits failure.splits)

lemma walk_embedded:
  assumes "field_Anonymous emb" "type_Kind (field_Type emb) = K_Struct"
  shows "unnamed (walk_fields sc reg info (emb # post))
       = unnamed (walk_fields sc reg info (type_Fields (field_Type emb) @ post))"
proof -
  let ?fs = "type_Fields (field_Type emb)"
  have h: "handleField sc reg info emb = unnamed (walk_fields sc reg info ?fs)"
    using handleField_embedded [OF assms] walk_fields_unnamed by simp
  show ?thesis
  proof (cases "walk_fields sc reg info ?fs")
    case (Inr info')
    then show ?thesis using h by (simp add: walk_fields_append)
  next
    case (Inl f)
    show ?thesis
    proof (cases f)
      case (Panicked p)
      then show ?thesis using h Inl by (simp add: walk_fields_append)
    next
      case (Failed w)
      then obtain m e where "w = wrapError m e" using walk_fields_Failed Inl by blast
      then show ?thesis using h Inl Failed by (simp add: walk_fields_append)
    qed
  qed
qed

text \<open>
  C2.  An embedded field whose type is a struct is handled exactly as its fields are, one
  after the other; so walking a record is the same with the embedded field as with the
  fields of its type declared in its place: the same record comes out (binder list,
  parameter lists and every other field), or the same error of \<open>handleField\<close> or the same
  panic (the wrapper around the error quotes the top-level field at which the walk
  stopped, which is the embedded field in the one record and the offending field in the
  other).
\<close>

theorem embedded_field_expands:
  assumes "field_Anonymous emb" "type_Kind (field_Type emb) = K_Struct"
  shows "handleField sc reg info emb = handleField_loop sc reg info (type_Fields (field_Type emb))
       \<and> unnamed (walk_fields sc reg info (pre @ emb # post))
         = unnamed (walk_fields sc reg info (pre @ type_Fields (field_Type emb) @ post))
       \<and> (walk_fields sc reg info (pre @ emb # post) = Inr info'
          \<longleftrightarrow> walk_fields sc reg info (pre @ type_Fields (field_Type emb) @ post) = Inr info')"
proof -
  have u: "unnamed (walk_fields sc reg info (pre @ emb # post))
         = unnamed (walk_fields sc reg info (pre @ type_Fields (field_Type emb) @ post))"
  proof (cases "walk_fields sc reg info pre")
    case (Inl e)
    then show ?thesis by (simp add: walk_fields_append)
  next
    case (Inr info1)
    then show ?thesis using walk_embedded [OF assms, of sc reg info1 post]
      by (simp add: walk_fields_append)
  qed
  have inr: "(r = Inr info') = (unnamed r = Inr info')" for r :: "failure + RestfulFunctionInfo"
    by (cases r rule: unnamed.cases) auto
  have "(walk_fields sc reg info (pre @ emb # post) = Inr info')
      = (walk_fields sc reg info (pre @ type_Fields (field_Type emb) @ post) = Inr info')"
    using u inr by metis
  then show ?thesis using u handleField_embedded [OF assms] by blast
qed

theorem embedded_field_expands_witness:
  "handleField example_strconv (init example_strconv) (new_info func_full) (embedded ''HTTPMethodGET'' HTTPMethodGET)
     = handleField_loop example_strconv (init example_strconv) (new_info func_full) (type_Fields HTTPMethodGET)
   \<and> (\<exists>info'. walk_fields example_strconv (init example_strconv) (new_info func_full) get_id_fields = Inr info'
          \<and> walk_fields example_strconv (init example_strconv) (new_info func_full) get_id_fields_flat = Inr info'
          \<and> map if_Name (InputFields info') = [''_'', ''ID'']
          \<and> HTTPMethod info' = ''GET'' \<and> map pp_Name (PathParameters info') = [''id''])"
proof -
  let ?emb = "embedded ''HTTPMethodGET'' HTTPMethodGET"
  let ?post = "[api_field ''ID'' (basic_type K_Int) ''path:id'']"
  have a: "field_Anonymous ?emb" and k: "type_Kind (field_Type ?emb) = K_Struct"
    and f: "field_Type ?emb = HTTPMethodGET"
    by (simp_all add: example_defs)
  obtain info' where w: "walk_fields example_strconv (init example_strconv) (new_info func_full) get_id_fields = Inr info'"
     and n: "map if_Name (InputFields info') = [''_'', ''ID'']"
            "HTTPMethod info' = ''GET''" "map pp_Name (PathParameters info') = [''id'']"
    by (simp add: example_defs register_defs analyse_defs)
  have g: "[] @ ?emb # ?post = get_id_fields"
    and h: "[] @ type_Fields HTTPMethodGET @ ?post = get_id_fields_flat"
    by (simp_all add: get_id_fields_def get_id_fields_flat_def)
  note T = embedded_field_expands [OF a k, of example_strconv "init example_strconv" "new_info func_full" "[]" ?post info']
  have t1: "handleField example_strconv (init example_strconv) (new_info func_full) ?emb
     = handleField_loop example_strconv (init example_strconv) (new_info func_full) (type_Fields HTTPMethodGET)"
    using T [THEN conjunct1] by (simp only: f)
  have t2: "walk_fields example_strconv (init example_strconv) (new_info func_full) get_id_fields_flat = Inr info'"
    using T [THEN conjunct2, THEN conjunct2] w by (simp only: f g h simp_thms)
  show ?thesis
    by (rule conjI [OF t1]) (rule exI [of _ info'], simp only: w t2 n simp_thms)
qed

section \<open>The query binder\<close>


lemma query_match_none: "\<forall>name \<in> set names. q name = [] \<Longrightarrow> query_match q names = ([], [])"
  by (induction names) auto

lemma query_match_first: "q n \<noteq> [] \<Longrightarrow> query_match q (n # ns) = (n, q n)"
  by simp

lemma query_match_skip: "q n = [] \<Longrightarrow> query_match q (n # ns) = query_match q ns"
  by simp


lemma register_query_names:
  "register_query sc apiTagValue field info = Inr (b, info')
   \<Longrightarrow> b = Some (query_binder sc (map TrimSpace (Split apiTagValue CHR '','')) field)"
  by (auto simp: register_query_def Let_def split: if_splits option.splits)


text \<open>
  C10.  Of a \<open>query\<close> directive, on a field that is no slice: when none of its names has
  a value in the request and the tag has no \<open>default\<close>, the binder returns no error and
  leaves the metadata record, and with it the field, as it was.
\<close>

theorem query_binder_missing_parameter:
  assumes "register_query sc apiTagValue field info = Inr (b, info')"
    and "rv_Kind v \<noteq> K_Slice"
    and "\<forall>name \<in> set (map TrimSpace (Split apiTagValue CHR '','')). req_QueryParameters req name = []"
    and "Tag_Lookup (field_Tag field) ''default'' = None"
  shows "\<exists>f. b = Some f \<and> f meta v req md = Inr md"
proof -
  let ?names = "map TrimSpace (Split apiTagValue CHR '','')"
  have "query_match (req_QueryParameters req) ?names = ([], [])"
    using assms(3) by (rule query_match_none)
  then have "query_binder sc ?names field meta v req md = Inr md"
    using assms(2,4) by (simp add: query_binder_def)
  then show ?thesis using register_query_names [OF assms(1)] by simp
qed

theorem query_binder_missing_parameter_witness:
  "\<exists>f. fst (projr (register_query example_strconv ''key1'' value1_field (new_info func_full))) = Some f
      \<and> f (RestfulFunctionMeta.truncate (new_info func_full))
            (FieldValue [0] (basic_type K_String) Settable)
            (example_request [] [(''other'', [''x''])]) (VStruct [VString []])
          = Inr (VStruct [VString []])"
proof -
  obtain b info' where r: "register_query example_strconv ''key1'' value1_field (new_info func_full) = Inr (b, info')"
    by (simp add: example_defs register_defs analyse_defs)
  from query_binder_missing_parameter [OF r, of "FieldValue [0] (basic_type K_String) Settable"
      "example_request [] [(''other'', [''x''])]"
      "RestfulFunctionMeta.truncate (new_info func_full)" "VStruct [VString []]"]
  show ?thesis using r
    by (simp add: example_defs Tag_Lookup_def trim_defs)
qed




section \<open>Binding stops at the first error\<close>

lemma run_binders_append:
  "run_binders meta t req (xs @ ys) md =
     (case run_binders meta t req xs md of
        (ns, Inl f) \<Rightarrow> (ns, Inl f)
      | (ns, Inr md') \<Rightarrow> (case run_binders meta t req ys md' of (ms, r) \<Rightarrow> (ns @ ms, r)))"
  by (induction xs arbitrary: md) (auto split: sum.splits prod.splits)

lemma run_binders_names:
  "run_binders meta t req xs md = (ns, Inr md') \<Longrightarrow> ns = map if_Name xs"
  by (induction xs arbitrary: md ns) (auto split: sum.splits prod.splits)

text \<open>A binder that fails ends the dispatch before the handler is called.\<close>

lemma binder_failure_stops:
  assumes ctx: "InContextPosition info < int (length (func_In (FunctionValue info)))"
    and pos: "0 \<le> InMetadataPosition info"
             "nat (InMetadataPosition info) < length (func_In (FunctionValue info))"
    and t: "func_In (FunctionValue info) ! nat (InMetadataPosition info) = t"
    and fields: "InputFields info = pre @ InputField name b # post"
    and pre: "snd (run_binders (RestfulFunctionMeta.truncate info) t req pre (Zero t)) = Inr md1"
    and look: "FieldByName t name = Inr v"
    and err: "b (RestfulFunctionMeta.truncate info) v req md1 = Inl f"
  shows "CreateFunctionWithError info errorHandler req resp =
           \<lparr>bound = map if_Name pre @ [name], called = [], response = resp, failed = Some f\<rparr>"
proof -
  let ?meta = "RestfulFunctionMeta.truncate info"
  obtain ns where ns: "run_binders ?meta t req pre (Zero t) = (ns, Inr md1)"
    using pre by (cases "run_binders ?meta t req pre (Zero t)") auto
  then have names: "ns = map if_Name pre" by (rule run_binders_names)
  have one: "run_binders ?meta t req (InputField name b # post) md1 = ([name], Inl f)"
    using look err by simp
  have run: "run_binders ?meta t req (InputFields info) (Zero t) = (map if_Name pre @ [name], Inl f)"
    using names by (simp add: fields run_binders_append ns one del: run_binders.simps)
  have "type_Kind t = K_Struct"
    using look by (auto simp: FieldByName_def split: if_splits)
  then have "bind_arguments info req = (map if_Name pre @ [name], Inl f)"
    using ctx pos t run by (auto simp: bind_arguments_def Let_def set_index_def get_index_def)
  then show ?thesis by (simp add: CreateFunctionWithError_def)
qed

lemma restfulFunctionWrapper_Failed:
  "f req resp = \<lparr>bound = ns, called = cs, response = r, failed = Some (Failed err)\<rparr>
   \<Longrightarrow> restfulFunctionWrapper sc f req resp
       = \<lparr>bound = ns, called = cs, response = r @ render_error sc err, failed = None\<rparr>"
  by (simp add: restfulFunctionWrapper_def Let_def)

lemma restfulFunctionWrapper_None:
  "f req resp = \<lparr>bound = ns, called = cs, response = r, failed = None\<rparr>
   \<Longrightarrow> restfulFunctionWrapper sc f req resp = \<lparr>bound = ns, called = cs, response = r, failed = None\<rparr>"
  by (simp add: restfulFunctionWrapper_def Let_def)

lemma q_id_route:
  "\<exists>info. ParseRestfulFunction example_strconv (init example_strconv) (FuncValue (handler_of q_id_metadata)) = Inr info
      \<and> InContextPosition info = 0 \<and> InMetadataPosition info = 1
      \<and> FunctionValue info = handler_of q_id_metadata
      \<and> InputFields info =
          [InputField ''Q'' (query_binder example_strconv [''q''] (api_field ''Q'' (basic_type K_Int) ''query:q'')),
           InputField ''ID'' (path_binder example_strconv ''id'')]"
  by (simp add: example_defs register_defs analyse_defs)

text \<open>
  C6.  A route whose positions lie within its parameter list, on a request for which the
  binders before some binder succeed and that binder, called on its field, returns an
  error: the binders called are
  those up to and including it, the handler is not called, the function of
  \<open>CreateFunctionWithError\<close> returns that error without writing, and the wrapper renders
  that error and nothing else.
\<close>

theorem binder_error_is_rendered:
  assumes "InContextPosition info < int (length (func_In (FunctionValue info)))"
    and "0 \<le> InMetadataPosition info"
        "nat (InMetadataPosition info) < length (func_In (FunctionValue info))"
    and "func_In (FunctionValue info) ! nat (InMetadataPosition info) = t"
    and "InputFields info = pre @ InputField name b # post"
    and "snd (run_binders (RestfulFunctionMeta.truncate info) t req pre (Zero t)) = Inr md1"
    and "FieldByName t name = Inr v"
    and "b (RestfulFunctionMeta.truncate info) v req md1 = Inl (Failed err)"
  shows "CreateFunctionWithError info errorHandler req resp =
           \<lparr>bound = map if_Name pre @ [name], called = [], response = resp, failed = Some (Failed err)\<rparr>
       \<and> restfulFunctionWrapper sc (CreateFunctionWithError info errorHandler) req resp =
           \<lparr>bound = map if_Name pre @ [name], called = [], response = resp @ render_error sc err, failed = None\<rparr>"
  using binder_failure_stops [OF assms] restfulFunctionWrapper_Failed by blast

theorem binder_error_is_rendered_witness:
  "\<exists>info. ParseRestfulFunction example_strconv (init example_strconv) (FuncValue (handler_of q_id_metadata)) = Inr info
     \<and> restfulFunctionWrapper example_strconv (CreateFunctionWithError info None)
          (example_request [(''id'', ''7'')] [(''q'', [''x''])]) []
        = \<lparr>bound = [''Q''], called = [],
           response = [WriteHeaderAndEntity 400
              (APIQueryParameterErrorOutput ''*restfulwrapper.APIQueryParameterError''
                 (''strconv.ParseInt: parsing '' @ Quote example_strconv ''x'' @ '': invalid syntax'') ''q'')],
           failed = None\<rparr>"
proof -
  let ?req = "example_request [(''id'', ''7'')] [(''q'', [''x''])]"
  let ?b = "query_binder example_strconv [''q''] (api_field ''Q'' (basic_type K_Int) ''query:q'')"
  let ?err = "NewAPIQueryParameterError example_strconv ''q'' (NumError ''ParseInt'' ''x'' ErrSyntax)"
  obtain info where p: "ParseRestfulFunction example_strconv (init example_strconv) (FuncValue (handler_of q_id_metadata)) = Inr info"
    and c: "InContextPosition info = 0" and m: "InMetadataPosition info = 1"
    and fv: "FunctionValue info = handler_of q_id_metadata"
    and fs: "InputFields info = [] @ InputField ''Q'' ?b # [InputField ''ID'' (path_binder example_strconv ''id'')]"
    using q_id_route by auto
  have h1: "InContextPosition info < int (length (func_In (FunctionValue info)))"
    and h2: "0 \<le> InMetadataPosition info"
    and h3: "nat (InMetadataPosition info) < length (func_In (FunctionValue info))"
    and h4: "func_In (FunctionValue info) ! nat (InMetadataPosition info) = q_id_metadata"
    by (simp_all add: c m fv handler_of_def q_id_metadata_def struct_type_def)
  have h7: "snd (run_binders (RestfulFunctionMeta.truncate info) q_id_metadata ?req [] (Zero q_id_metadata))
              = Inr (Zero q_id_metadata)"
    by simp
  have h8: "FieldByName q_id_metadata ''Q'' = Inr (FieldValue [0] (basic_type K_Int) Settable)"
    by (simp add: example_defs FieldByName_def Type_FieldByName_def)
  have h9: "?b (RestfulFunctionMeta.truncate info) (FieldValue [0] (basic_type K_Int) Settable) ?req
              (Zero q_id_metadata) = Inl (Failed ?err)"
    by (simp add: example_defs dispatch_defs query_parse_def)
  from binder_error_is_rendered [OF h1 h2 h3 h4 fs h7 h8 h9, of None "[]" example_strconv] p
  show ?thesis
    by (simp add: render_defs)
qed








lemma redirect_route:
  "\<exists>info. ParseRestfulFunction example_strconv (init example_strconv) (FuncValue func_redirect) = Inr info
      \<and> InContextPosition info = - 1 \<and> InMetadataPosition info = - 1
      \<and> OutErrorPosition info = 1 \<and> OutResponsePosition info = 0
      \<and> FunctionValue info = func_redirect"
  by (simp add: example_defs analyse_defs)

text \<open>
  C7, as amended.  When binding succeeds and the handler returns no error, and its value in
  the response position implements \<open>Writer\<close>, the response is what it was before followed
  by exactly what \<open>Write\<close> of that value does: the dispatcher writes nothing of its own.
\<close>

theorem Writer_result_writes_itself:
  assumes "bind_arguments info req = (names, Inr methodArguments)"
    and "func_Call (FunctionValue info) methodArguments = methodResults"
    and "length methodResults = length (func_Out (FunctionValue info))"
    and "OutErrorPosition info < 0
         \<or> (nat (OutErrorPosition info) < length methodResults
            \<and> methodResults ! nat (OutErrorPosition info) = NilResult)"
    and "0 \<le> OutResponsePosition info" "nat (OutResponsePosition info) < length methodResults"
    and "methodResults ! nat (OutResponsePosition info) = WriterResult ops"
  shows "restfulFunctionWrapper sc (CreateFunctionWithError info errorHandler) req resp =
           \<lparr>bound = names, called = [methodArguments], response = resp @ ops, failed = None\<rparr>"
proof -
  have "render_results info errorHandler methodResults resp = (resp @ ops, None)"
    using assms(3-7) by (auto simp: render_results_def get_index_def)
  then have "CreateFunctionWithError info errorHandler req resp =
           \<lparr>bound = names, called = [methodArguments], response = resp @ ops, failed = None\<rparr>"
    using assms(1,2) by (simp add: CreateFunctionWithError_def)
  then show ?thesis by (rule restfulFunctionWrapper_None)
qed


theorem Writer_result_writes_itself_witness:
  "\<exists>info. ParseRestfulFunction example_strconv (init example_strconv) (FuncValue func_redirect) = Inr info
     \<and> restfulFunctionWrapper example_strconv (CreateFunctionWithError info None) (example_request [] []) []
        = \<lparr>bound = [], called = [[]],
           response = [SetHeader ''Location'' ''/elsewhere'', WriteHeader 302], failed = None\<rparr>"
proof -
  obtain info where p: "ParseRestfulFunction example_strconv (init example_strconv) (FuncValue func_redirect) = Inr info"
    and c: "InContextPosition info = - 1" and m: "InMetadataPosition info = - 1"
    and e: "OutErrorPosition info = 1" and r: "OutResponsePosition info = 0"
    and fv: "FunctionValue info = func_redirect"
    using redirect_route by auto
  have h1: "bind_arguments info (example_request [] []) = ([], Inr [])"
    by (simp add: bind_arguments_def c m fv func_redirect_def)
  have h2: "func_Call (FunctionValue info) [] = [WriterResult redirect, NilResult]"
    by (simp add: fv func_redirect_def)
  have h3: "length [WriterResult redirect, NilResult] = length (func_Out (FunctionValue info))"
    by (simp add: fv func_redirect_def)
  have h4: "OutErrorPosition info < 0
         \<or> (nat (OutErrorPosition info) < length [WriterResult redirect, NilResult]
            \<and> [WriterResult redirect, NilResult] ! nat (OutErrorPosition info) = NilResult)"
    by (simp add: e)
  have h5: "0 \<le> OutResponsePosition info"
    and h6: "nat (OutResponsePosition info) < length [WriterResult redirect, NilResult]"
    and h7: "[WriterResult redirect, NilResult] ! nat (OutResponsePosition info) = WriterResult redirect"
    by (simp_all add: r)
  from Writer_result_writes_itself [OF h1 h2 h3 h4 h5 h6 h7, of example_strconv None "[]"] p
  show ?thesis by (simp add: redirect_def)
qed

text \<open>
  The claim as stated fails on a handler that returns a value implementing \<open>Writer\<close>
  together with an error: the error is rendered, as a generic internal error here, and
  \<open>Write\<close> is never called.
\<close>

theorem Writer_result_writes_itself_counterexample:
  "(case ParseRestfulFunction example_strconv (init example_strconv) (FuncValue func_redirect_error) of
      Inl e \<Rightarrow> None
    | Inr info \<Rightarrow>
        Some (restfulFunctionWrapper example_strconv (CreateFunctionWithError info None) (example_request [] []) []))
   = Some \<lparr>bound = [], called = [[]],
           response = [WriteHeaderAndEntity 500 (APIResponseErrorOutput ''*errors.errorString'' ''boom'')],
           failed = None\<rparr>"
  by (simp add: example_defs analyse_defs dispatch_defs)

section \<open>Names of query parameters\<close>

text \<open>
  C8.  The record \<open>struct { V string `api:"query:a,a"` }\<close> is accepted, and the name
  \<open>a\<close> is registered twice among its query parameters: the factory looks every name of
  the list up among the parameters registered before, not among the names of its own list.
  The same name on two fields, as in
  \<open>struct { V string `api:"query:a"`; W string `api:"query:b,a"` }\<close>, is rejected.
\<close>

theorem query_alias_registered_twice:
  "(case ParseRestfulFunction example_strconv (init example_strconv) (FuncValue (handler_of alias_twice_metadata)) of
      Inl e \<Rightarrow> []
    | Inr info \<Rightarrow> map qp_Name (QueryParameters info)) = [''a'', ''a'']
   \<and> ParseRestfulFunction example_strconv (init example_strconv) (FuncValue (handler_of alias_across_metadata))
     = Inl (Failed (wrapError (''could not handle field '' @ Quote example_strconv ''W''
                                @ '': W: duplicate query tag: a'')
                      (wrapError ''W: duplicate query tag: a'' (errorString ''duplicate query tag: a''))))"
  by (simp add: example_defs register_defs analyse_defs quote_defs)

end
